theory Spec2Isabelle
  imports Main
begin

section \<open>Data model of the turn-resolution engine (game.py)\<close>

text \<open>
  The engine of game.py is the class \<open>GameEngine\<close>. Only game.py is available; the classes
  it imports (\<open>Player\<close>, \<open>Enemy\<close>, \<open>Item\<close>, \<open>Config\<close>, the generator, combat, input,
  field-of-view, trap, save and render subsystems) are taken as parameters, collected in
  the record \<open>collab\<close> below. Python exceptions that game.py itself can raise are values
  of \<open>py_error\<close>.
\<close>

datatype py_error = IndexError | KeyError

type_synonym Position = "int \<times> int"

type_synonym grid = "char list list"

datatype Action =
    MOVE_UP | MOVE_DOWN | MOVE_LEFT | MOVE_RIGHT
  | MOVE_UP_LEFT | MOVE_UP_RIGHT | MOVE_DOWN_LEFT | MOVE_DOWN_RIGHT
  | WAIT | INVENTORY | HELP | NUMBER_9 | QUIT | ESC | USE_ITEM | DROP_ITEM
  | OTHER_ACTION nat

text \<open>
  The messages of game.py are string literals and f-strings. Each literal is one
  constructor, carrying the values its f-string interpolates; a string produced by a
  collaborator is \<open>Text\<close>. The constructors name the source line of their literal:
  \<open>GainedXp\<close> l.301, \<open>Waited\<close> l.356, \<open>SavedToSlot\<close> l.373, \<open>SaveFailed\<close> l.375,
  \<open>GameEnded\<close> l.380, \<open>CannotUse\<close> l.404, \<open>NothingSelected\<close> l.406, \<open>Dropped\<close> l.418,
  \<open>PickedUp\<close> l.444 and l.449, \<open>InventoryFull\<close> l.452, \<open>BuffExpired\<close> l.509,
  \<open>TopFloor\<close> l.530, \<open>EnteredLevel\<close> l.157, \<open>BossWarning\<close> l.183; the lines written to
  the logger only are \<open>LogGenerate\<close> l.110, \<open>LogVictory\<close> l.537, \<open>LogDeath\<close> l.544.
  \<open>Joined\<close> is \<open>' '.join\<close> of two or more messages.
\<close>

datatype message =
    Text string
  | GainedXp int | Waited | SavedToSlot int | SaveFailed | GameEnded
  | CannotUse string | NothingSelected | Dropped string | PickedUp string
  | InventoryFull | BuffExpired | TopFloor | EnteredLevel int | BossWarning
  | LogGenerate int | LogVictory | LogDeath
  | Joined "message list"

record 'i Item =
  i_position :: Position
  item_category :: string
  i_value :: int
  i_name :: string
  i_attrs :: 'i

text \<open>
  \<open>temp_atk_duration\<close> is an attribute that a Player object may lack (game.py asks
  \<open>hasattr\<close>): \<open>None\<close> is the absent attribute.
\<close>

record ('i, 'p) Player =
  position :: Position
  gold :: int
  inventory :: "'i Item list"
  max_inventory :: int
  atk :: int
  temp_atk_duration :: "int option"
  p_attrs :: 'p

record 'e Enemy =
  e_position :: Position
  xp_reward :: int
  e_attrs :: 'e

record 'r dungeon_data =
  d_map :: grid
  d_rooms :: "'r list"
  d_width :: int
  d_height :: int
  d_stairs_up :: "Position option"
  d_stairs_down :: "Position option"
  d_player_start :: Position

text \<open>
  The state of a \<open>GameEngine\<close>: the keys of the dictionary \<open>game_state\<close>, the control
  attributes \<open>running\<close>, \<open>showing_inventory\<close>, \<open>selected_item_index\<close>,
  \<open>current_save_slot\<close>, and \<open>ext\<close>, the internal state of everything outside game.py
  that a call can change: the random number generator, the trap system's own traps, the
  screen, the save files and the log file.
\<close>

record ('p, 'e, 'i, 'r, 't, 'x) engine =
  current_level :: int
  game_map :: grid
  explored :: "bool list list"
  visible :: "bool list list"
  rooms :: "'r list"
  player :: "('i, 'p) Player"
  enemies :: "'e Enemy list"
  items :: "'i Item list"
  traps :: "'t list"
  messages :: "message list"
  stairs_up :: "Position option"
  stairs_down :: "Position option"
  width :: int
  height :: int
  running :: bool
  showing_inventory :: bool
  selected_item_index :: int
  current_save_slot :: int
  ext :: 'x

text \<open>
  The collaborators. A method that only answers a question is a function; a method that
  changes the objects it is given returns them updated; a method of a subsystem with a
  state of its own, or one that draws random numbers, reads or writes, takes and returns
  \<open>ext\<close>. The configuration is read through \<open>total_levels\<close> (the value of
  \<open>config.game.get('total_levels', 5)\<close>), \<open>max_messages\<close>
  (\<open>config.game.get('max_messages', 10)\<close>), \<open>enemies_config\<close> (\<open>config.enemies.items()\<close>),
  \<open>min_level\<close> (\<open>enemy_config.get('min_level', 1)\<close>), \<open>get_enemy_config\<close> and
  \<open>items_config\<close> (a dictionary of dictionaries). \<open>distance_gt_5 p q\<close> is
  \<open>p.distance_to(q) > 5\<close>.
\<close>

record ('p, 'e, 'i, 'r, 't, 'c, 'x) collab =
  total_levels :: int
  max_messages :: int
  enemies_config :: "(string \<times> 'c) list"
  min_level :: "'c \<Rightarrow> int"
  get_enemy_config :: "string \<Rightarrow> 'c"
  items_config :: "string \<Rightarrow> (string \<Rightarrow> 'c option) option"
  new_Enemy :: "int \<Rightarrow> int \<Rightarrow> string \<Rightarrow> 'c \<Rightarrow> 'e Enemy"
  create_item :: "string \<Rightarrow> 'c \<Rightarrow> 'i Item"
  new_Currency :: "string \<Rightarrow> 'c \<Rightarrow> 'i Item"
  player_is_alive :: "('i, 'p) Player \<Rightarrow> bool"
  move_to :: "('i, 'p) Player \<Rightarrow> int \<Rightarrow> int \<Rightarrow> ('i, 'p) Player"
  gain_xp :: "('i, 'p) Player \<Rightarrow> int \<Rightarrow> ('i, 'p) Player"
  add_to_inventory :: "('i, 'p) Player \<Rightarrow> 'i Item \<Rightarrow> bool \<times> ('i, 'p) Player"
  get_inventory_item :: "('i, 'p) Player \<Rightarrow> int \<Rightarrow> 'i Item option"
  remove_from_inventory :: "('i, 'p) Player \<Rightarrow> int \<Rightarrow> 'i Item option \<times> ('i, 'p) Player"
  enemy_is_alive :: "'e Enemy \<Rightarrow> bool"
  distance_gt_5 :: "Position \<Rightarrow> Position \<Rightarrow> bool"
  generate :: "'x \<Rightarrow> int \<Rightarrow> 'r dungeon_data \<times> 'x"
  is_walkable :: "grid \<Rightarrow> int \<Rightarrow> int \<Rightarrow> bool"
  get_random_walkable_position :: "'x \<Rightarrow> grid \<Rightarrow> Position option \<times> 'x"
  get_random_floor_position :: "'x \<Rightarrow> 'r \<Rightarrow> Position \<times> 'x"
  random_choice_enemy :: "'x \<Rightarrow> (string \<times> 'c) list \<Rightarrow> (string \<times> 'c) \<times> 'x"
  random_choice :: "'x \<Rightarrow> string list \<Rightarrow> string \<times> 'x"
  attack :: "'x \<Rightarrow> ('i, 'p) Player \<Rightarrow> 'e Enemy \<Rightarrow> string \<times> ('i, 'p) Player \<times> 'e Enemy \<times> 'x"
  check_level_up :: "'x \<Rightarrow> ('i, 'p) Player \<Rightarrow> string option \<times> ('i, 'p) Player \<times> 'x"
  enemy_take_turn :: "'x \<Rightarrow> 'e Enemy \<Rightarrow> ('i, 'p) Player \<Rightarrow> grid \<Rightarrow> int \<Rightarrow> int
                      \<Rightarrow> string option \<times> 'e Enemy \<times> ('i, 'p) Player \<times> 'x"
  use_item :: "'x \<Rightarrow> ('i, 'p) Player \<Rightarrow> 'i Item \<Rightarrow> 'e Enemy list
               \<Rightarrow> string \<times> ('i, 'p) Player \<times> 'e Enemy list \<times> 'x"
  equip_item :: "'x \<Rightarrow> ('i, 'p) Player \<Rightarrow> 'i Item \<Rightarrow> string \<times> ('i, 'p) Player \<times> 'x"
  get_movement_delta :: "Action \<Rightarrow> int \<times> int"
  is_number_key :: "Action \<Rightarrow> bool"
  get_item_index :: "Action \<Rightarrow> int"
  compute_visible :: "grid \<Rightarrow> Position \<Rightarrow> int \<Rightarrow> int \<Rightarrow> bool list list"
  update_explored :: "bool list list \<Rightarrow> bool list list \<Rightarrow> bool list list"
  generate_traps :: "'x \<Rightarrow> grid \<Rightarrow> int \<Rightarrow> int \<Rightarrow> int \<Rightarrow> Position \<Rightarrow> 't list \<times> 'x"
  check_trap_at :: "'x \<Rightarrow> int \<Rightarrow> int \<Rightarrow> ('i, 'p) Player \<Rightarrow> string option \<times> ('i, 'p) Player \<times> 'x"
  remove_triggered_traps :: "'x \<Rightarrow> 'x"
  update_player_poison :: "'x \<Rightarrow> ('i, 'p) Player \<Rightarrow> string option \<times> ('i, 'p) Player \<times> 'x"
  save_game :: "'x \<Rightarrow> ('p, 'e, 'i, 'r, 't, 'x) engine \<Rightarrow> int \<Rightarrow> bool \<times> 'x"
  render_help :: "'x \<Rightarrow> 'x"
  wait_for_key :: "'x \<Rightarrow> 'x"
  render_inventory :: "'x \<Rightarrow> ('i, 'p) Player \<Rightarrow> 'x"
  render_game_over :: "'x \<Rightarrow> ('p, 'e, 'i, 'r, 't, 'x) engine \<Rightarrow> bool \<Rightarrow> 'x"
  logger_info :: "'x \<Rightarrow> message \<Rightarrow> 'x"

section \<open>Python helpers\<close>

text \<open>Truth value of an optional string: \<open>None\<close> and the empty string are false.\<close>

fun truthy :: "string option \<Rightarrow> bool" where
  "truthy None = False"
| "truthy (Some m) = (m \<noteq> [])"

text \<open>\<open>xs[-m:]\<close>: the last \<open>m\<close> elements for positive \<open>m\<close>, all but the first \<open>-m\<close> otherwise.\<close>

definition slice_from_neg :: "'a list \<Rightarrow> int \<Rightarrow> 'a list" where
  "slice_from_neg xs m =
     (if 0 < m then drop (length xs - nat m) xs else drop (nat (- m)) xs)"

text \<open>
  Subscription \<open>xs[i]\<close> of a Python list of length \<open>n\<close>: the indices \<open>0 .. n - 1\<close> read
  from the front, the indices \<open>- n .. - 1\<close> read from the back, every other index raises
  IndexError.
\<close>

definition py_index :: "'a list \<Rightarrow> int \<Rightarrow> py_error + 'a" where
  "py_index xs i =
     (if 0 \<le> i \<and> i < int (length xs) then Inr (xs ! nat i)
      else if i < 0 \<and> - int (length xs) \<le> i then Inr (xs ! nat (int (length xs) + i))
      else Inl IndexError)"

section \<open>The engine\<close>

text \<open>\<open>add_message\<close> (l.79-87).\<close>

definition add_message ::
  "('p, 'e, 'i, 'r, 't, 'c, 'x) collab \<Rightarrow> message \<Rightarrow> ('p, 'e, 'i, 'r, 't, 'x) engine
   \<Rightarrow> ('p, 'e, 'i, 'r, 't, 'x) engine" where
  "add_message c m s =
     (let ms = messages s @ [m];
          ms' = (if int (length ms) > max_messages c then slice_from_neg ms (max_messages c)
                 else ms)
      in s\<lparr>messages := ms', ext := logger_info c (ext s) m\<rparr>)"

text \<open>\<open>_update_temporary_effects\<close> (l.499-511): returns the player and the joined message.\<close>

definition join_messages :: "message list \<Rightarrow> message option" where
  "join_messages ms = (case ms of [] \<Rightarrow> None | [m] \<Rightarrow> Some m | _ \<Rightarrow> Some (Joined ms))"

definition update_temporary_effects ::
  "('i, 'p) Player \<Rightarrow> ('i, 'p) Player \<times> message option" where
  "update_temporary_effects p =
     (case temp_atk_duration p of
        None \<Rightarrow> (p, join_messages [])
      | Some d \<Rightarrow>
          if d > 0 then
            (let p1 = p\<lparr>temp_atk_duration := Some (d - 1)\<rparr>
             in if d - 1 = 0
                then (p1\<lparr>atk := max 3 (atk p1 - 5)\<rparr>, join_messages ([] @ [BuffExpired]))
                else (p1, join_messages []))
          else (p, join_messages []))"


text \<open>
  Objects have identity. game.py puts each freshly constructed object into a list once,
  so an object of a list is its slot: \<open>list.remove(obj)\<close> deletes the slot of \<open>obj\<close>,
  and removing a list of objects that are all present deletes their slots.
\<close>

definition remove_slot :: "nat \<Rightarrow> 'a list \<Rightarrow> 'a list" where
  "remove_slot i xs = take i xs @ drop (Suc i) xs"

definition remove_slots :: "nat list \<Rightarrow> 'a list \<Rightarrow> 'a list" where
  "remove_slots js xs = map snd (filter (\<lambda>(j, y). j \<notin> set js) (zip [0..<length xs] xs))"

fun first_slot :: "('a \<Rightarrow> bool) \<Rightarrow> 'a list \<Rightarrow> nat option" where
  "first_slot P [] = None"
| "first_slot P (y # ys) = (if P y then Some 0 else map_option Suc (first_slot P ys))"

text \<open>\<open>if msg: self.add_message(msg)\<close> for an optional string of a collaborator.\<close>

definition add_if_truthy ::
  "('p, 'e, 'i, 'r, 't, 'c, 'x) collab \<Rightarrow> string option \<Rightarrow> ('p, 'e, 'i, 'r, 't, 'x) engine
   \<Rightarrow> ('p, 'e, 'i, 'r, 't, 'x) engine" where
  "add_if_truthy c msg s =
     (case msg of None \<Rightarrow> s | Some m \<Rightarrow> if m \<noteq> [] then add_message c (Text m) s else s)"

text \<open>\<open>_update_fov\<close> (l.236-251).\<close>

definition update_fov ::
  "('p, 'e, 'i, 'r, 't, 'c, 'x) collab \<Rightarrow> ('p, 'e, 'i, 'r, 't, 'x) engine
   \<Rightarrow> ('p, 'e, 'i, 'r, 't, 'x) engine" where
  "update_fov c s =
     (let v = compute_visible c (game_map s) (position (player s)) (width s) (height s)
      in s\<lparr>visible := v, explored := update_explored c v (explored s)\<rparr>)"

text \<open>\<open>_get_enemy_at\<close> (l.427-432): the slot of the first living enemy at \<open>(x, y)\<close>.\<close>

definition get_enemy_at ::
  "('p, 'e, 'i, 'r, 't, 'c, 'x) collab \<Rightarrow> ('p, 'e, 'i, 'r, 't, 'x) engine \<Rightarrow> int \<Rightarrow> int
   \<Rightarrow> nat option" where
  "get_enemy_at c s x y =
     first_slot (\<lambda>enemy. enemy_is_alive c enemy \<and> fst (e_position enemy) = x
                          \<and> snd (e_position enemy) = y) (enemies s)"

subsection \<open>Enemy Turn Driver: \<open>_enemy_turn\<close> (l.458-497)\<close>

text \<open>
  The loop of l.467-480 over the slots of \<open>enemies\<close>. It returns whether the pass stopped
  at the \<open>return\<close> of l.478, the slots collected in \<open>enemies_to_remove\<close>, and the state.
\<close>

fun enemy_pass ::
  "('p, 'e, 'i, 'r, 't, 'c, 'x) collab \<Rightarrow> nat list \<Rightarrow> nat list
   \<Rightarrow> ('p, 'e, 'i, 'r, 't, 'x) engine \<Rightarrow> bool \<times> nat list \<times> ('p, 'e, 'i, 'r, 't, 'x) engine" where
  "enemy_pass c [] enemies_to_remove s = (False, enemies_to_remove, s)"
| "enemy_pass c (i # rest) enemies_to_remove s =
     (let enemy = enemies s ! i in
      if enemy_is_alive c enemy then
        (case enemy_take_turn c (ext s) enemy (player s) (game_map s) (width s) (height s) of
           (msg, enemy', player', x') \<Rightarrow>
             let s1 = s\<lparr>player := player', enemies := (enemies s)[i := enemy'], ext := x'\<rparr>;
                 s2 = add_if_truthy c msg s1
             in if \<not> player_is_alive c (player s2) then (True, enemies_to_remove, s2)
                else enemy_pass c rest enemies_to_remove s2)
      else enemy_pass c rest (enemies_to_remove @ [i]) s)"

text \<open>The steps after the loop (l.482-497), from the slots to remove and the state.\<close>

definition buff_tick ::
  "('p, 'e, 'i, 'r, 't, 'c, 'x) collab \<Rightarrow> ('p, 'e, 'i, 'r, 't, 'x) engine
   \<Rightarrow> ('p, 'e, 'i, 'r, 't, 'x) engine" where
  "buff_tick c s =
     (case update_temporary_effects (player s) of
        (player', temp_effect_message) \<Rightarrow>
          let s1 = s\<lparr>player := player'\<rparr>
          in (case temp_effect_message of None \<Rightarrow> s1 | Some m \<Rightarrow> add_message c m s1))"

definition poison_tick ::
  "('p, 'e, 'i, 'r, 't, 'c, 'x) collab \<Rightarrow> ('p, 'e, 'i, 'r, 't, 'x) engine
   \<Rightarrow> bool \<times> ('p, 'e, 'i, 'r, 't, 'x) engine" where
  "poison_tick c s =
     (case update_player_poison c (ext s) (player s) of
        (poison_message, player', x') \<Rightarrow>
          let s1 = s\<lparr>player := player', ext := x'\<rparr>
          in if truthy poison_message
             then (let s2 = add_if_truthy c poison_message s1
                   in (\<not> player_is_alive c (player s2), s2))
             else (False, s1))"

definition enemy_turn ::
  "('p, 'e, 'i, 'r, 't, 'c, 'x) collab \<Rightarrow> ('p, 'e, 'i, 'r, 't, 'x) engine
   \<Rightarrow> ('p, 'e, 'i, 'r, 't, 'x) engine" where
  "enemy_turn c s =
     (case enemy_pass c [0..<length (enemies s)] [] s of
        (returned, enemies_to_remove, s1) \<Rightarrow>
          if returned then s1
          else
            (let s2 = s1\<lparr>enemies := remove_slots enemies_to_remove (enemies s1)\<rparr>
             in case poison_tick c s2 of
                  (returned', s3) \<Rightarrow> if returned' then s3 else buff_tick c s3))"

subsection \<open>Pickup rule: \<open>_check_pickup_item\<close> (l.434-456)\<close>

fun pickup_loop ::
  "('p, 'e, 'i, 'r, 't, 'c, 'x) collab \<Rightarrow> Position \<Rightarrow> nat list \<Rightarrow> nat list
   \<Rightarrow> ('p, 'e, 'i, 'r, 't, 'x) engine \<Rightarrow> nat list \<times> ('p, 'e, 'i, 'r, 't, 'x) engine" where
  "pickup_loop c player_pos [] items_to_remove s = (items_to_remove, s)"
| "pickup_loop c player_pos (i # rest) items_to_remove s =
     (let item = items s ! i; p = player s in
      if fst (i_position item) = fst player_pos \<and> snd (i_position item) = snd player_pos then
        if item_category item = ''currency'' then
          pickup_loop c player_pos rest (items_to_remove @ [i])
            (add_message c (PickedUp (i_name item)) (s\<lparr>player := p\<lparr>gold := gold p + i_value item\<rparr>\<rparr>))
        else if int (length (inventory p)) < max_inventory p then
          (case add_to_inventory c p item of
             (added, p') \<Rightarrow>
               if added
               then pickup_loop c player_pos rest (items_to_remove @ [i])
                      (add_message c (PickedUp (i_name item)) (s\<lparr>player := p'\<rparr>))
               else pickup_loop c player_pos rest items_to_remove (s\<lparr>player := p'\<rparr>))
        else pickup_loop c player_pos rest items_to_remove (add_message c InventoryFull s)
      else pickup_loop c player_pos rest items_to_remove s)"

definition check_pickup_item ::
  "('p, 'e, 'i, 'r, 't, 'c, 'x) collab \<Rightarrow> ('p, 'e, 'i, 'r, 't, 'x) engine
   \<Rightarrow> ('p, 'e, 'i, 'r, 't, 'x) engine" where
  "check_pickup_item c s =
     (case pickup_loop c (position (player s)) [0..<length (items s)] [] s of
        (items_to_remove, s1) \<Rightarrow> s1\<lparr>items := remove_slots items_to_remove (items s1)\<rparr>)"

subsection \<open>Level Transition Manager (l.108-234, l.513-544)\<close>

text \<open>
  \<open>_spawn_enemies\<close> (l.159-199). \<open>try_spawn_enemy\<close> is the inner loop of at most 50
  attempts (l.194-199), \<open>spawn_normal_enemies\<close> the loop over \<open>range(enemy_count)\<close>
  (l.186-199); \<open>rooms[-1]\<close> raises IndexError on an empty list.
\<close>

fun try_spawn_enemy ::
  "('p, 'e, 'i, 'r, 't, 'c, 'x) collab \<Rightarrow> nat \<Rightarrow> string \<times> 'c
   \<Rightarrow> ('p, 'e, 'i, 'r, 't, 'x) engine \<Rightarrow> ('p, 'e, 'i, 'r, 't, 'x) engine" where
  "try_spawn_enemy c 0 choice s = s"
| "try_spawn_enemy c (Suc n) choice s =
     (case get_random_walkable_position c (ext s) (game_map s) of
        (pos, x') \<Rightarrow>
          let s1 = s\<lparr>ext := x'\<rparr>
          in (case pos of
                None \<Rightarrow> try_spawn_enemy c n choice s1
              | Some q \<Rightarrow>
                  if distance_gt_5 c q (position (player s1))
                  then s1\<lparr>enemies := enemies s1 @ [new_Enemy c (fst q) (snd q) (fst choice) (snd choice)]\<rparr>
                  else try_spawn_enemy c n choice s1))"

fun spawn_normal_enemies ::
  "('p, 'e, 'i, 'r, 't, 'c, 'x) collab \<Rightarrow> nat \<Rightarrow> (string \<times> 'c) list
   \<Rightarrow> ('p, 'e, 'i, 'r, 't, 'x) engine \<Rightarrow> ('p, 'e, 'i, 'r, 't, 'x) engine" where
  "spawn_normal_enemies c 0 available_enemies s = s"
| "spawn_normal_enemies c (Suc n) available_enemies s =
     (if available_enemies = [] then s
      else (case random_choice_enemy c (ext s) available_enemies of
              (choice, x') \<Rightarrow>
                spawn_normal_enemies c n available_enemies
                  (try_spawn_enemy c 50 choice (s\<lparr>ext := x'\<rparr>))))"

definition spawn_enemies ::
  "('p, 'e, 'i, 'r, 't, 'c, 'x) collab \<Rightarrow> int \<Rightarrow> ('p, 'e, 'i, 'r, 't, 'x) engine
   \<Rightarrow> py_error + ('p, 'e, 'i, 'r, 't, 'x) engine" where
  "spawn_enemies c level s =
     (let enemy_count = 3 + level * 2;
          available_enemies = filter (\<lambda>(enemy_type, enemy_config). level \<ge> min_level c enemy_config)
                                (enemies_config c)
      in if level = total_levels c then
           (case py_index (rooms s) (- 1) of
              Inl e \<Rightarrow> Inl e
            | Inr boss_room \<Rightarrow>
                (case get_random_floor_position c (ext s) boss_room of
                   (boss_pos, x') \<Rightarrow>
                     let boss = new_Enemy c (fst boss_pos) (snd boss_pos) ''dragon''
                                  (get_enemy_config c ''dragon'')
                     in Inr (add_message c BossWarning
                               (s\<lparr>enemies := enemies s @ [boss], ext := x'\<rparr>))))
         else Inr (spawn_normal_enemies c (nat enemy_count) available_enemies s))"

text \<open>\<open>_place_item\<close> (l.227-234): at most 50 attempts.\<close>

fun place_item ::
  "('p, 'e, 'i, 'r, 't, 'c, 'x) collab \<Rightarrow> nat \<Rightarrow> 'i Item
   \<Rightarrow> ('p, 'e, 'i, 'r, 't, 'x) engine \<Rightarrow> ('p, 'e, 'i, 'r, 't, 'x) engine" where
  "place_item c 0 item s = s"
| "place_item c (Suc n) item s =
     (case get_random_walkable_position c (ext s) (game_map s) of
        (pos, x') \<Rightarrow>
          let s1 = s\<lparr>ext := x'\<rparr>
          in (case pos of
                None \<Rightarrow> place_item c n item s1
              | Some q \<Rightarrow> s1\<lparr>items := items s1 @ [item\<lparr>i_position := q\<rparr>]\<rparr>))"

text \<open>\<open>d[k1][k2]\<close> on the dictionary of dictionaries \<open>config.items\<close>.\<close>

definition config_item ::
  "('p, 'e, 'i, 'r, 't, 'c, 'x) collab \<Rightarrow> string \<Rightarrow> string \<Rightarrow> py_error + 'c" where
  "config_item c k1 k2 =
     (case items_config c k1 of
        None \<Rightarrow> Inl KeyError
      | Some d \<Rightarrow> (case d k2 of None \<Rightarrow> Inl KeyError | Some v \<Rightarrow> Inr v))"

text \<open>
  \<open>_spawn_items\<close> (l.201-225): \<open>spawn_chosen\<close> is the body shared by the two iterations of
  l.207-211 (\<open>'consumables'\<close>) and l.215-219 (\<open>'equipment'\<close>), \<open>spawn_gold\<close> the loop
  of l.222-225.
\<close>

fun spawn_chosen ::
  "('p, 'e, 'i, 'r, 't, 'c, 'x) collab \<Rightarrow> nat \<Rightarrow> string \<Rightarrow> string list
   \<Rightarrow> ('p, 'e, 'i, 'r, 't, 'x) engine \<Rightarrow> py_error + ('p, 'e, 'i, 'r, 't, 'x) engine" where
  "spawn_chosen c 0 kind names s = Inr s"
| "spawn_chosen c (Suc n) kind names s =
     (case random_choice c (ext s) names of
        (item_type, x') \<Rightarrow>
          (case config_item c kind item_type of
             Inl e \<Rightarrow> Inl e
           | Inr item_config \<Rightarrow>
               spawn_chosen c n kind names
                 (place_item c 50 (create_item c item_type item_config) (s\<lparr>ext := x'\<rparr>))))"

fun spawn_gold ::
  "('p, 'e, 'i, 'r, 't, 'c, 'x) collab \<Rightarrow> nat
   \<Rightarrow> ('p, 'e, 'i, 'r, 't, 'x) engine \<Rightarrow> py_error + ('p, 'e, 'i, 'r, 't, 'x) engine" where
  "spawn_gold c 0 s = Inr s"
| "spawn_gold c (Suc n) s =
     (case config_item c ''currency'' ''gold'' of
        Inl e \<Rightarrow> Inl e
      | Inr item_config \<Rightarrow>
          spawn_gold c n (place_item c 50 (new_Currency c ''gold'' item_config) s))"

definition spawn_items ::
  "('p, 'e, 'i, 'r, 't, 'c, 'x) collab \<Rightarrow> int \<Rightarrow> ('p, 'e, 'i, 'r, 't, 'x) engine
   \<Rightarrow> py_error + ('p, 'e, 'i, 'r, 't, 'x) engine" where
  "spawn_items c level s =
     (case spawn_chosen c (nat (2 + level)) ''consumables''
             [''health_potion'', ''scroll_fireball'', ''scroll_teleport''] s of
        Inl e \<Rightarrow> Inl e
      | Inr s1 \<Rightarrow>
          (case (if level > 1
                 then spawn_chosen c 1 ''equipment'' [''sword'', ''shield'', ''axe''] s1
                 else Inr s1) of
             Inl e \<Rightarrow> Inl e
           | Inr s2 \<Rightarrow> spawn_gold c (nat (3 + level)) s2))"

text \<open>\<open>_generate_level\<close> (l.108-157).\<close>

definition generate_level ::
  "('p, 'e, 'i, 'r, 't, 'c, 'x) collab \<Rightarrow> int \<Rightarrow> ('p, 'e, 'i, 'r, 't, 'x) engine
   \<Rightarrow> py_error + ('p, 'e, 'i, 'r, 't, 'x) engine" where
  "generate_level c level s =
     (case generate c (logger_info c (ext s) (LogGenerate level)) level of
        (dungeon_data, x1) \<Rightarrow>
          let s1 = s\<lparr>ext := x1, game_map := d_map dungeon_data, rooms := d_rooms dungeon_data,
                     width := d_width dungeon_data, height := d_height dungeon_data,
                     stairs_up := d_stairs_up dungeon_data,
                     stairs_down := d_stairs_down dungeon_data, current_level := level\<rparr>;
              s2 = s1\<lparr>explored := replicate (nat (height s1)) (replicate (nat (width s1)) False),
                      visible := replicate (nat (height s1)) (replicate (nat (width s1)) False)\<rparr>;
              player_start = d_player_start dungeon_data;
              s3 = s2\<lparr>player := move_to c (player s2) (fst player_start) (snd player_start)\<rparr>;
              s4 = s3\<lparr>enemies := [], items := [], traps := []\<rparr>
          in (case spawn_enemies c level s4 of
                Inl e \<Rightarrow> Inl e
              | Inr s5 \<Rightarrow>
                  (case spawn_items c level s5 of
                     Inl e \<Rightarrow> Inl e
                   | Inr s6 \<Rightarrow>
                       (case generate_traps c (ext s6) (game_map s6) (width s6) (height s6)
                               level player_start of
                          (new_traps, x2) \<Rightarrow>
                            Inr (add_message c (EnteredLevel level)
                                   (update_fov c (s6\<lparr>traps := new_traps, ext := x2\<rparr>)))))))"

text \<open>\<open>_victory\<close> (l.532-537) and \<open>_game_over\<close> (l.539-544).\<close>

definition victory ::
  "('p, 'e, 'i, 'r, 't, 'c, 'x) collab \<Rightarrow> ('p, 'e, 'i, 'r, 't, 'x) engine
   \<Rightarrow> ('p, 'e, 'i, 'r, 't, 'x) engine" where
  "victory c s =
     (let s1 = s\<lparr>running := False\<rparr>
      in s1\<lparr>ext := logger_info c (wait_for_key c (render_game_over c (ext s1) s1 True)) LogVictory\<rparr>)"

definition game_over ::
  "('p, 'e, 'i, 'r, 't, 'c, 'x) collab \<Rightarrow> ('p, 'e, 'i, 'r, 't, 'x) engine
   \<Rightarrow> ('p, 'e, 'i, 'r, 't, 'x) engine" where
  "game_over c s =
     (let s1 = s\<lparr>running := False\<rparr>
      in s1\<lparr>ext := logger_info c (wait_for_key c (render_game_over c (ext s1) s1 False)) LogDeath\<rparr>)"

text \<open>\<open>_go_downstairs\<close> (l.513-522) and \<open>_go_upstairs\<close> (l.524-530).\<close>

definition go_downstairs ::
  "('p, 'e, 'i, 'r, 't, 'c, 'x) collab \<Rightarrow> ('p, 'e, 'i, 'r, 't, 'x) engine
   \<Rightarrow> py_error + ('p, 'e, 'i, 'r, 't, 'x) engine" where
  "go_downstairs c s =
     (if current_level s \<ge> total_levels c then Inr (victory c s)
      else generate_level c (current_level s + 1) s)"

definition go_upstairs ::
  "('p, 'e, 'i, 'r, 't, 'c, 'x) collab \<Rightarrow> ('p, 'e, 'i, 'r, 't, 'x) engine
   \<Rightarrow> py_error + ('p, 'e, 'i, 'r, 't, 'x) engine" where
  "go_upstairs c s =
     (if current_level s > 1 then generate_level c (current_level s - 1) s
      else Inr (add_message c TopFloor s))"

subsection \<open>Action Resolver: \<open>_handle_game_action\<close> (l.279-380)\<close>

text \<open>
  The attack of the player on the enemy in slot \<open>i\<close> with its bookkeeping (l.295-309):
  the Combat Orchestrator.
\<close>

definition player_attack ::
  "('p, 'e, 'i, 'r, 't, 'c, 'x) collab \<Rightarrow> nat \<Rightarrow> ('p, 'e, 'i, 'r, 't, 'x) engine
   \<Rightarrow> ('p, 'e, 'i, 'r, 't, 'x) engine" where
  "player_attack c i s =
     (case attack c (ext s) (player s) (enemies s ! i) of
        (result_message, player', target_enemy, x') \<Rightarrow>
          let s1 = add_message c (Text result_message)
                     (s\<lparr>player := player', enemies := (enemies s)[i := target_enemy], ext := x'\<rparr>)
          in if \<not> enemy_is_alive c target_enemy then
               (let s2 = s1\<lparr>player := gain_xp c (player s1) (xp_reward target_enemy)\<rparr>;
                    s3 = add_message c (GainedXp (xp_reward target_enemy)) s2
                in case check_level_up c (ext s3) (player s3) of
                     (level_up_msg, player'', x'') \<Rightarrow>
                       let s4 = add_if_truthy c level_up_msg (s3\<lparr>player := player'', ext := x''\<rparr>)
                       in s4\<lparr>enemies := remove_slot i (enemies s4)\<rparr>)
             else s1)"

text \<open>\<open>game_map[new_y][new_x]\<close> (l.335 and l.348).\<close>

definition tile_at :: "grid \<Rightarrow> int \<Rightarrow> int \<Rightarrow> py_error + char" where
  "tile_at game_map' new_x new_y =
     (case py_index game_map' new_y of
        Inl e \<Rightarrow> Inl e
      | Inr row \<Rightarrow> py_index row new_x)"

definition move_actions :: "Action list" where
  "move_actions = [MOVE_UP, MOVE_DOWN, MOVE_LEFT, MOVE_RIGHT,
                   MOVE_UP_LEFT, MOVE_UP_RIGHT, MOVE_DOWN_LEFT, MOVE_DOWN_RIGHT]"

text \<open>The branch of a movement action (l.287-352).\<close>

definition handle_move ::
  "('p, 'e, 'i, 'r, 't, 'c, 'x) collab \<Rightarrow> Action \<Rightarrow> ('p, 'e, 'i, 'r, 't, 'x) engine
   \<Rightarrow> py_error + ('p, 'e, 'i, 'r, 't, 'x) engine" where
  "handle_move c action s =
     (case get_movement_delta c action of
        (dx, dy) \<Rightarrow>
          let new_x = fst (position (player s)) + dx;
              new_y = snd (position (player s)) + dy
          in (case get_enemy_at c s new_x new_y of
                Some i \<Rightarrow> Inr (update_fov c (enemy_turn c (player_attack c i s)))
              | None \<Rightarrow>
                  if is_walkable c (game_map s) new_x new_y then
                    (let s1 = s\<lparr>player := move_to c (player s) new_x new_y\<rparr>
                     in case check_trap_at c (ext s1) new_x new_y (player s1) of
                          (trap_message, player', x') \<Rightarrow>
                            let s2 = s1\<lparr>player := player', ext := x'\<rparr>;
                                s3 = (if truthy trap_message
                                      then (let s2' = add_if_truthy c trap_message s2
                                            in s2'\<lparr>ext := remove_triggered_traps c (ext s2')\<rparr>)
                                      else s2)
                            in if truthy trap_message \<and> \<not> player_is_alive c (player s3)
                               then Inr (game_over c s3)
                               else
                                 (let s4 = check_pickup_item c s3
                                  in case tile_at (game_map s) new_x new_y of
                                       Inl e \<Rightarrow> Inl e
                                     | Inr tile \<Rightarrow>
                                         if tile = CHR ''>'' then go_downstairs c s4
                                         else if tile = CHR ''<'' then go_upstairs c s4
                                         else Inr (update_fov c (enemy_turn c s4))))
                  else
                    (case tile_at (game_map s) new_x new_y of
                       Inl e \<Rightarrow> Inl e
                     | Inr tile \<Rightarrow>
                         if tile = CHR ''>'' then go_downstairs c s
                         else if tile = CHR ''<'' then go_upstairs c s
                         else Inr s)))"

definition handle_game_action ::
  "('p, 'e, 'i, 'r, 't, 'c, 'x) collab \<Rightarrow> Action \<Rightarrow> ('p, 'e, 'i, 'r, 't, 'x) engine
   \<Rightarrow> py_error + ('p, 'e, 'i, 'r, 't, 'x) engine" where
  "handle_game_action c action s =
     (if action \<in> set move_actions then handle_move c action s
      else if action = WAIT then
        Inr (update_fov c (enemy_turn c (add_message c Waited s)))
      else if action = INVENTORY then
        Inr (s\<lparr>showing_inventory := True, selected_item_index := - 1\<rparr>)
      else if action = HELP then
        Inr (s\<lparr>ext := wait_for_key c (render_help c (ext s))\<rparr>)
      else if action = NUMBER_9 then
        (case save_game c (ext s) s (current_save_slot s) of
           (saved, x') \<Rightarrow>
             let s1 = s\<lparr>ext := x'\<rparr>
             in if saved then Inr (add_message c (SavedToSlot (current_save_slot s1)) s1)
                else Inr (add_message c SaveFailed s1))
      else if action \<in> set [QUIT, ESC] then
        Inr (add_message c GameEnded (s\<lparr>running := False\<rparr>))
      else Inr s)"

subsection \<open>Inventory Interaction Handler: \<open>_handle_inventory_action\<close> (l.382-425)\<close>




section \<open>Concrete collaborators for the worked examples\<close>

text \<open>
  A small instance of the collaborators, used to run the engine on concrete states.
  A player and an enemy carry their hit points as remaining attribute and are alive while
  these are positive; \<open>ext\<close> is the list of the subsystem calls made so far.
\<close>

definition demo_map :: grid where
  "demo_map = [''##########'', ''#..>....<#'', ''##########'']"

definition demo_delta :: "Action \<Rightarrow> int \<times> int" where
  "demo_delta a =
     (if a = MOVE_UP then (0, - 1) else if a = MOVE_DOWN then (0, 1)
      else if a = MOVE_LEFT then (- 1, 0) else if a = MOVE_RIGHT then (1, 0)
      else if a = MOVE_UP_LEFT then (- 1, - 1) else if a = MOVE_UP_RIGHT then (1, - 1)
      else if a = MOVE_DOWN_LEFT then (- 1, 1) else if a = MOVE_DOWN_RIGHT then (1, 1)
      else (0, 0))"

definition demo_walkable :: "grid \<Rightarrow> int \<Rightarrow> int \<Rightarrow> bool" where
  "demo_walkable g x y =
     (0 \<le> y \<and> y < int (length g) \<and> 0 \<le> x \<and> x < int (length (g ! nat y))
      \<and> g ! nat y ! nat x = CHR ''.'')"

definition demo_add :: "(unit, int) Player \<Rightarrow> unit Item \<Rightarrow> bool \<times> (unit, int) Player" where
  "demo_add p item =
     (if int (length (inventory p)) < max_inventory p
      then (True, p\<lparr>inventory := inventory p @ [item]\<rparr>) else (False, p))"

definition demo_get :: "(unit, int) Player \<Rightarrow> int \<Rightarrow> unit Item option" where
  "demo_get p i =
     (if 0 \<le> i \<and> i < int (length (inventory p)) then Some (inventory p ! nat i) else None)"

definition demo_remove ::
  "(unit, int) Player \<Rightarrow> int \<Rightarrow> unit Item option \<times> (unit, int) Player" where
  "demo_remove p i =
     (if 0 \<le> i \<and> i < int (length (inventory p))
      then (Some (inventory p ! nat i), p\<lparr>inventory := remove_slot (nat i) (inventory p)\<rparr>)
      else (None, p))"

definition demo :: "(int, int, unit, unit, unit, unit, string list) collab" where
  "demo = \<lparr>
     total_levels = 5,
     max_messages = 10,
     enemies_config = [(''goblin'', ())],
     min_level = (\<lambda>cfg. 1),
     get_enemy_config = (\<lambda>name. ()),
     items_config = (\<lambda>k1. Some (\<lambda>k2. Some ())),
     new_Enemy = (\<lambda>x y enemy_type cfg. \<lparr>e_position = (x, y), xp_reward = 10, e_attrs = 5\<rparr>),
     create_item = (\<lambda>item_type cfg. \<lparr>i_position = (0, 0), item_category = ''consumable'',
                                      i_value = 0, i_name = item_type, i_attrs = ()\<rparr>),
     new_Currency = (\<lambda>item_type cfg. \<lparr>i_position = (0, 0), item_category = ''currency'',
                                       i_value = 10, i_name = item_type, i_attrs = ()\<rparr>),
     player_is_alive = (\<lambda>p. p_attrs p > 0),
     move_to = (\<lambda>p x y. p\<lparr>position := (x, y)\<rparr>),
     gain_xp = (\<lambda>p n. p),
     add_to_inventory = demo_add,
     get_inventory_item = demo_get,
     remove_from_inventory = demo_remove,
     enemy_is_alive = (\<lambda>e. e_attrs e > 0),
     distance_gt_5 = (\<lambda>p q. (fst p - fst q) * (fst p - fst q)
                              + (snd p - snd q) * (snd p - snd q) > 25),
     generate = (\<lambda>x level. (\<lparr>d_map = demo_map, d_rooms = [()], d_width = 10, d_height = 3,
                               d_stairs_up = Some (8, 1), d_stairs_down = Some (3, 1),
                               d_player_start = (1, 1)\<rparr>, x @ [''generate''])),
     is_walkable = demo_walkable,
     get_random_walkable_position = (\<lambda>x g. (Some (7, 1), x @ [''get_random_walkable_position''])),
     get_random_floor_position = (\<lambda>x room. ((7, 1), x @ [''get_random_floor_position''])),
     random_choice_enemy = (\<lambda>x xs. (hd xs, x @ [''random.choice''])),
     random_choice = (\<lambda>x xs. (hd xs, x @ [''random.choice''])),
     attack = (\<lambda>x p e. (''hit'', p, e\<lparr>e_attrs := e_attrs e - atk p\<rparr>, x @ [''attack''])),
     check_level_up = (\<lambda>x p. (None, p, x @ [''check_level_up''])),
     enemy_take_turn = (\<lambda>x e p g w h. (Some ''bite'', e, p\<lparr>p_attrs := p_attrs p - 3\<rparr>,
                                        x @ [''enemy_take_turn''])),
     use_item = (\<lambda>x p item es. (''fireball'', p, map (\<lambda>e. e\<lparr>e_attrs := 0\<rparr>) es,
                                 x @ [''use_item''])),
     equip_item = (\<lambda>x p item. (''equipped'', p\<lparr>atk := atk p + i_value item\<rparr>,
                                x @ [''equip_item''])),
     get_movement_delta = demo_delta,
     is_number_key = (\<lambda>a. case a of OTHER_ACTION n \<Rightarrow> True | NUMBER_9 \<Rightarrow> True | _ \<Rightarrow> False),
     get_item_index = (\<lambda>a. case a of OTHER_ACTION n \<Rightarrow> int n | _ \<Rightarrow> 8),
     compute_visible = (\<lambda>g pos w h. replicate (nat h) (replicate (nat w) True)),
     update_explored = (\<lambda>v e. v),
     generate_traps = (\<lambda>x g w h level start. ([], x @ [''generate_traps''])),
     check_trap_at = (\<lambda>x a b p. (None, p, x @ [''check_trap_at''])),
     remove_triggered_traps = (\<lambda>x. x @ [''remove_triggered_traps'']),
     update_player_poison = (\<lambda>x p. (None, p, x @ [''update_player_poison''])),
     save_game = (\<lambda>x s slot. (True, x @ [''save_game''])),
     render_help = (\<lambda>x. x @ [''render_help'']),
     wait_for_key = (\<lambda>x. x @ [''wait_for_key'']),
     render_inventory = (\<lambda>x p. x @ [''render_inventory'']),
     render_game_over = (\<lambda>x s is_victory. x @ [''render_game_over'']),
     logger_info = (\<lambda>x m. x) \<rparr>"

definition hero :: "(unit, int) Player" where
  "hero = \<lparr>position = (1, 1), gold = 0, inventory = [], max_inventory = 2, atk = 4,
           temp_atk_duration = None, p_attrs = 20\<rparr>"

definition goblin :: "int \<Rightarrow> int \<Rightarrow> int \<Rightarrow> int Enemy" where
  "goblin x y hp = \<lparr>e_position = (x, y), xp_reward = 10, e_attrs = hp\<rparr>"

definition demo_state :: "(int, int, unit, unit, unit, string list) engine" where
  "demo_state = \<lparr>current_level = 1, game_map = demo_map,
     explored = replicate 3 (replicate 10 False), visible = replicate 3 (replicate 10 False),
     rooms = [()], player = hero, enemies = [], items = [], traps = [], messages = [],
     stairs_up = Some (8, 1), stairs_down = Some (3, 1), width = 10, height = 3,
     running = True, showing_inventory = False, selected_item_index = - 1,
     current_save_slot = 1, ext = []\<rparr>"

text \<open>States and trap systems for the examples of the Enemy Turn Driver.\<close>

definition duel :: "(int, int, unit, unit, unit, string list) engine" where
  "duel = demo_state\<lparr>player := hero\<lparr>p_attrs := 5\<rparr>,
                      enemies := [goblin 2 1 5, goblin 5 1 5, goblin 6 1 5]\<rparr>"

definition demo_silent :: "(int, int, unit, unit, unit, unit, string list) collab" where
  "demo_silent = demo\<lparr>update_player_poison :=
     (\<lambda>x p. (None, p\<lparr>p_attrs := 0\<rparr>, x @ [''update_player_poison'']))\<rparr>"

definition demo_poison :: "(int, int, unit, unit, unit, unit, string list) collab" where
  "demo_poison = demo\<lparr>update_player_poison :=
     (\<lambda>x p. (Some ''poison'', p\<lparr>p_attrs := p_attrs p - 2\<rparr>, x @ [''update_player_poison'']))\<rparr>"

definition buffed :: "(int, int, unit, unit, unit, string list) engine" where
  "buffed = demo_state\<lparr>player := hero\<lparr>atk := 9, temp_atk_duration := Some 1, p_attrs := 2\<rparr>\<rparr>"

text \<open>
  A contract of the absent combat and trap code and of \<open>Player.gain_xp\<close>: they do not move
  the player. (Only \<open>Player.move_to\<close> is meant to.)
\<close>

definition keeps_position :: "('p, 'e, 'i, 'r, 't, 'c, 'x) collab \<Rightarrow> bool" where
  "keeps_position c \<longleftrightarrow>
     (\<forall>x p e. position (fst (snd (attack c x p e))) = position p)
     \<and> (\<forall>p n. position (gain_xp c p n) = position p)
     \<and> (\<forall>x p. position (fst (snd (check_level_up c x p))) = position p)
     \<and> (\<forall>x e p g w h. position (fst (snd (snd (enemy_take_turn c x e p g w h)))) = position p)
     \<and> (\<forall>x p. position (fst (snd (update_player_poison c x p))) = position p)"

text \<open>A state with three goblins, two of them on the tile right of the player, and gold.\<close>

definition brawl :: "(int, int, unit, unit, unit, string list) engine" where
  "brawl = demo_state\<lparr>enemies := [goblin 5 1 5, goblin 2 1 3, goblin 2 1 9],
                       items := [\<lparr>i_position = (2, 1), item_category = ''currency'',
                                  i_value = 10, i_name = ''gold'', i_attrs = ()\<rparr>]\<rparr>"

text \<open>A grid of one tile, with the player on it.\<close>

definition edge :: "(int, int, unit, unit, unit, string list) engine" where
  "edge = demo_state\<lparr>game_map := [''.''], width := 1, height := 1,
                      player := hero\<lparr>position := (0, 0)\<rparr>\<rparr>"

text \<open>The part of the state that the spawning of enemies and items does not touch.\<close>

definition floor_kept ::
  "('p, 'e, 'i, 'r, 't, 'x) engine \<Rightarrow> ('p, 'e, 'i, 'r, 't, 'x) engine \<Rightarrow> bool" where
  "floor_kept s s' \<longleftrightarrow>
     player s' = player s \<and> game_map s' = game_map s \<and> rooms s' = rooms s
     \<and> width s' = width s \<and> height s' = height s \<and> stairs_up s' = stairs_up s
     \<and> stairs_down s' = stairs_down s \<and> current_level s' = current_level s
     \<and> explored s' = explored s \<and> visible s' = visible s"

text \<open>
  A first floor with the player at \<open>(5, 1)\<close> carrying 30 gold, and the second floor that
  the example collaborators generate from it.
\<close>

definition descent_start :: "(int, int, unit, unit, unit, string list) engine" where
  "descent_start = demo_state\<lparr>player := hero\<lparr>position := (5, 1), gold := 30\<rparr>,
                               enemies := [goblin 2 1 5]\<rparr>"

definition floor2 :: "(int, int, unit, unit, unit, string list) engine" where
  "floor2 = demo_state\<lparr>current_level := 2, player := hero\<lparr>gold := 30\<rparr>,
     explored := replicate 3 (replicate 10 True), visible := replicate 3 (replicate 10 True),
     enemies := replicate 7 (goblin 7 1 5),
     items := replicate 4 \<lparr>i_position = (7, 1), item_category = ''consumable'', i_value = 0,
                            i_name = ''health_potion'', i_attrs = ()\<rparr>
              @ [\<lparr>i_position = (7, 1), item_category = ''consumable'', i_value = 0,
                   i_name = ''sword'', i_attrs = ()\<rparr>]
              @ replicate 5 \<lparr>i_position = (7, 1), item_category = ''currency'', i_value = 10,
                              i_name = ''gold'', i_attrs = ()\<rparr>,
     messages := [EnteredLevel 2],
     ext := [''generate'']
            @ concat (replicate 12 [''random.choice'', ''get_random_walkable_position''])
            @ replicate 5 ''get_random_walkable_position'' @ [''generate_traps'']\<rparr>"



text \<open>
  The pickup rule as the specification words it, a recursion over the items of the floor
  that returns the player, the messages to log in order and the items left on the ground:
  for every item co-located with the player, a currency item adds its value to the gold
  and is removed; else, if the inventory has free capacity, the item is handed to the
  attempt \<open>add\<close> and removed on success; else "inventory full" is logged and the item
  stays. It is compared with \<open>check_pickup_item\<close> in C5, with
  \<open>Player.add_to_inventory\<close> as the attempt.
\<close>

fun pickup_rule ::
  "(('i, 'p) Player \<Rightarrow> 'i Item \<Rightarrow> bool \<times> ('i, 'p) Player) \<Rightarrow> Position \<Rightarrow> 'i Item list
   \<Rightarrow> ('i, 'p) Player \<Rightarrow> ('i, 'p) Player \<times> message list \<times> 'i Item list" where
  "pickup_rule add pos [] p = (p, [], [])"
| "pickup_rule add pos (item # rest) p =
     (if i_position item = pos then
        if item_category item = ''currency'' then
          (case pickup_rule add pos rest (p\<lparr>gold := gold p + i_value item\<rparr>) of
             (p', logged, ground) \<Rightarrow> (p', PickedUp (i_name item) # logged, ground))
        else if int (length (inventory p)) < max_inventory p then
          (case add p item of
             (success, q) \<Rightarrow>
               (case pickup_rule add pos rest q of
                  (p', logged, ground) \<Rightarrow>
                    if success then (p', PickedUp (i_name item) # logged, ground)
                    else (p', logged, item # ground)))
        else
          (case pickup_rule add pos rest p of
             (p', logged, ground) \<Rightarrow> (p', InventoryFull # logged, item # ground))
      else
        (case pickup_rule add pos rest p of
           (p', logged, ground) \<Rightarrow> (p', logged, item # ground)))"

text \<open>
  An attempt that always succeeds by appending the item, and the contract that the absent
  \<open>Player.add_to_inventory\<close> is this attempt whenever there is free capacity.
\<close>

definition accept_item :: "('i, 'p) Player \<Rightarrow> 'i Item \<Rightarrow> bool \<times> ('i, 'p) Player" where
  "accept_item p item = (True, p\<lparr>inventory := inventory p @ [item]\<rparr>)"

definition inventory_accepts :: "('p, 'e, 'i, 'r, 't, 'c, 'x) collab \<Rightarrow> bool" where
  "inventory_accepts c \<longleftrightarrow>
     (\<forall>p item. int (length (inventory p)) < max_inventory p \<longrightarrow>
        add_to_inventory c p item = (True, p\<lparr>inventory := inventory p @ [item]\<rparr>))"

text \<open>
  The move and the trap check of the walkable branch of \<open>_handle_game_action\<close>
  (l.318-329), as they stand in \<open>handle_move\<close>: whether the handler returns at l.329
  because the trap killed the player, and the state reached.
\<close>

definition step_onto ::
  "('p, 'e, 'i, 'r, 't, 'c, 'x) collab \<Rightarrow> int \<Rightarrow> int \<Rightarrow> ('p, 'e, 'i, 'r, 't, 'x) engine
   \<Rightarrow> bool \<times> ('p, 'e, 'i, 'r, 't, 'x) engine" where
  "step_onto c new_x new_y s =
     (let s1 = s\<lparr>player := move_to c (player s) new_x new_y\<rparr>
      in case check_trap_at c (ext s1) new_x new_y (player s1) of
           (trap_message, player', x') \<Rightarrow>
             let s2 = s1\<lparr>player := player', ext := x'\<rparr>;
                 s3 = (if truthy trap_message
                       then (let s2' = add_if_truthy c trap_message s2
                             in s2'\<lparr>ext := remove_triggered_traps c (ext s2')\<rparr>)
                       else s2)
             in (truthy trap_message \<and> \<not> player_is_alive c (player s3), s3))"

text \<open>
  A floor with six items, five of them on the tile right of the player, and a trap system
  whose trap kills.
\<close>

definition thing :: "int \<Rightarrow> int \<Rightarrow> string \<Rightarrow> int \<Rightarrow> string \<Rightarrow> unit Item" where
  "thing x y category v name =
     \<lparr>i_position = (x, y), item_category = category, i_value = v, i_name = name, i_attrs = ()\<rparr>"

definition loot :: "(int, int, unit, unit, unit, string list) engine" where
  "loot = demo_state\<lparr>items :=
     [thing 2 1 ''currency'' 10 ''gold'', thing 2 1 ''weapon'' 3 ''sword'',
      thing 5 1 ''consumable'' 0 ''health_potion'', thing 2 1 ''armor'' 2 ''shield'',
      thing 2 1 ''weapon'' 4 ''axe'', thing 2 1 ''currency'' 5 ''gold'']\<rparr>"

definition demo_trap :: "(int, int, unit, unit, unit, unit, string list) collab" where
  "demo_trap = demo\<lparr>check_trap_at :=
     (\<lambda>x a b p. (Some ''spikes'', p\<lparr>p_attrs := 0\<rparr>, x @ [''check_trap_at'']))\<rparr>"

section \<open>What the steps leave unchanged\<close>

lemma add_message_fields [simp]:
  "player (add_message c m s) = player s"
  "enemies (add_message c m s) = enemies s"
  "items (add_message c m s) = items s"
  "game_map (add_message c m s) = game_map s"
  "width (add_message c m s) = width s"
  "height (add_message c m s) = height s"
  "current_level (add_message c m s) = current_level s"
  "rooms (add_message c m s) = rooms s"
  "traps (add_message c m s) = traps s"
  "running (add_message c m s) = running s"
  by (simp_all add: add_message_def Let_def)

lemma add_if_truthy_fields [simp]:
  "player (add_if_truthy c msg s) = player s"
  "enemies (add_if_truthy c msg s) = enemies s"
  "items (add_if_truthy c msg s) = items s"
  "game_map (add_if_truthy c msg s) = game_map s"
  "width (add_if_truthy c msg s) = width s"
  "height (add_if_truthy c msg s) = height s"
  "current_level (add_if_truthy c msg s) = current_level s"
  by (simp_all add: add_if_truthy_def split: option.splits)

lemma enemy_pass_append:
  "enemy_pass c (js @ ks) rem s =
     (case enemy_pass c js rem s of
        (returned, rem', s') \<Rightarrow> if returned then (True, rem', s') else enemy_pass c ks rem' s')"
  by (induction js arbitrary: rem s) (simp_all add: Let_def split: prod.splits)

lemma enemy_pass_frame:
  "enemy_pass c js rem s = (returned, rem', s') \<Longrightarrow>
     length (enemies s') = length (enemies s) \<and> items s' = items s \<and> game_map s' = game_map s
     \<and> width s' = width s \<and> height s' = height s \<and> current_level s' = current_level s
     \<and> (\<forall>j. j \<notin> set js \<longrightarrow> enemies s' ! j = enemies s ! j)"
proof (induction js arbitrary: rem s)
  case Nil
  then show ?case by simp
next
  case (Cons i js)
  show ?case
  proof (cases "enemy_is_alive c (enemies s ! i)")
    case False
    with Cons.prems have "enemy_pass c js (rem @ [i]) s = (returned, rem', s')"
      by simp
    from Cons.IH [OF this] show ?thesis by simp
  next
    case True
    obtain msg e' p' x' where t:
      "enemy_take_turn c (ext s) (enemies s ! i) (player s) (game_map s) (width s) (height s)
         = (msg, e', p', x')"
      by (cases "enemy_take_turn c (ext s) (enemies s ! i) (player s) (game_map s) (width s) (height s)") auto
    define s2 where "s2 = add_if_truthy c msg (s\<lparr>player := p', enemies := (enemies s)[i := e'], ext := x'\<rparr>)"
    show ?thesis
    proof (cases "player_is_alive c p'")
      case False
      with True t Cons.prems have "s' = s2" by (simp add: s2_def Let_def)
      then show ?thesis by (simp add: s2_def)
    next
      case alive: True
      with True t Cons.prems have "enemy_pass c js rem s2 = (returned, rem', s')"
        by (simp add: s2_def Let_def)
      from Cons.IH [OF this] show ?thesis by (simp add: s2_def)
    qed
  qed
qed

lemmas demo_simps = demo_def demo_state_def hero_def goblin_def demo_map_def demo_delta_def
  demo_walkable_def demo_add_def demo_get_def demo_remove_def
  add_message_def add_if_truthy_def slice_from_neg_def remove_slots_def remove_slot_def
  Let_def

lemma first_slot_Some:
  "first_slot P xs = Some i \<Longrightarrow> i < length xs \<and> P (xs ! i)"
  by (induction xs arbitrary: i) (auto split: if_splits)

lemma update_fov_fields [simp]:
  "player (update_fov c s) = player s"
  "enemies (update_fov c s) = enemies s"
  "items (update_fov c s) = items s"
  "game_map (update_fov c s) = game_map s"
  "current_level (update_fov c s) = current_level s"
  "messages (update_fov c s) = messages s"
  "ext (update_fov c s) = ext s"
  by (simp_all add: update_fov_def Let_def)

lemma update_temporary_effects_position:
  "position (fst (update_temporary_effects p)) = position p"
  by (simp add: update_temporary_effects_def Let_def split: option.splits)

lemma buff_tick_fields [simp]:
  "enemies (buff_tick c s) = enemies s"
  "items (buff_tick c s) = items s"
  "game_map (buff_tick c s) = game_map s"
  "current_level (buff_tick c s) = current_level s"
  "position (player (buff_tick c s)) = position (player s)"
  using update_temporary_effects_position [of "player s"]
  by (auto simp: buff_tick_def Let_def split: prod.splits option.splits)

lemma poison_tick_fields:
  "poison_tick c s = (returned, s') \<Longrightarrow>
     enemies s' = enemies s \<and> items s' = items s \<and> game_map s' = game_map s
     \<and> current_level s' = current_level s
     \<and> player s' = fst (snd (update_player_poison c (ext s) (player s)))"
  by (auto simp: poison_tick_def Let_def split: prod.splits if_splits)

lemma enemy_pass_position:
  "keeps_position c \<Longrightarrow> enemy_pass c js rem s = (returned, rem', s') \<Longrightarrow>
     position (player s') = position (player s)"
proof (induction js arbitrary: rem s)
  case Nil
  then show ?case by simp
next
  case (Cons i js)
  show ?case
  proof (cases "enemy_is_alive c (enemies s ! i)")
    case False
    with Cons.prems have "enemy_pass c js (rem @ [i]) s = (returned, rem', s')"
      by simp
    from Cons.IH [OF Cons.prems(1) this] show ?thesis .
  next
    case True
    obtain msg e' p' x' where t:
      "enemy_take_turn c (ext s) (enemies s ! i) (player s) (game_map s) (width s) (height s)
         = (msg, e', p', x')"
      using prod_cases4 by blast
    from Cons.prems(1) have pos: "position p' = position (player s)"
      unfolding keeps_position_def
      by (metis t fst_conv snd_conv)
    define s2 where "s2 = add_if_truthy c msg (s\<lparr>player := p', enemies := (enemies s)[i := e'], ext := x'\<rparr>)"
    show ?thesis
    proof (cases "player_is_alive c p'")
      case False
      with True t Cons.prems have "s' = s2" by (simp add: s2_def Let_def)
      then show ?thesis using pos by (simp add: s2_def)
    next
      case alive: True
      with True t Cons.prems have "enemy_pass c js rem s2 = (returned, rem', s')"
        by (simp add: s2_def Let_def)
      from Cons.IH [OF Cons.prems(1) this] show ?thesis using pos by (simp add: s2_def)
    qed
  qed
qed

lemma enemy_turn_fields [simp]:
  "items (enemy_turn c s) = items s"
  "game_map (enemy_turn c s) = game_map s"
  "current_level (enemy_turn c s) = current_level s"
proof -
  obtain returned rem s1 where p: "enemy_pass c [0..<length (enemies s)] [] s = (returned, rem, s1)"
    using prod_cases3 by blast
  note f = enemy_pass_frame [OF p]
  obtain r2 s3 where q: "poison_tick c (s1\<lparr>enemies := remove_slots rem (enemies s1)\<rparr>) = (r2, s3)"
    by fastforce
  note g = poison_tick_fields [OF q]
  show "items (enemy_turn c s) = items s" "game_map (enemy_turn c s) = game_map s"
    "current_level (enemy_turn c s) = current_level s"
    using f g by (simp_all add: enemy_turn_def p q Let_def)
qed

lemma enemy_turn_position:
  assumes "keeps_position c"
  shows "position (player (enemy_turn c s)) = position (player s)"
proof -
  obtain returned rem s1 where p: "enemy_pass c [0..<length (enemies s)] [] s = (returned, rem, s1)"
    using prod_cases3 by blast
  note f = enemy_pass_position [OF assms p]
  obtain r2 s3 where q: "poison_tick c (s1\<lparr>enemies := remove_slots rem (enemies s1)\<rparr>) = (r2, s3)"
    by fastforce
  from poison_tick_fields [OF q] assms have "position (player s3) = position (player s1)"
    by (simp add: keeps_position_def)
  with f show ?thesis
    by (simp add: enemy_turn_def p q Let_def)
qed

lemma remove_slot_update: "remove_slot i (xs[i := v]) = remove_slot i xs"
  by (simp add: remove_slot_def)

lemma player_attack_fields [simp]:
  "items (player_attack c i s) = items s"
  "game_map (player_attack c i s) = game_map s"
  "current_level (player_attack c i s) = current_level s"
  by (simp_all add: player_attack_def Let_def split: prod.splits)

lemma player_attack_position:
  "keeps_position c \<Longrightarrow> position (player (player_attack c i s)) = position (player s)"
  unfolding keeps_position_def player_attack_def
  apply (simp add: Let_def split: prod.splits)
  apply (metis fst_conv snd_conv)
  done

lemma floor_kept_refl [simp]: "floor_kept s s"
  by (simp add: floor_kept_def)

lemma floor_kept_trans: "floor_kept s s1 \<Longrightarrow> floor_kept s1 s2 \<Longrightarrow> floor_kept s s2"
  by (simp add: floor_kept_def)

lemma floor_kept_add_message [simp]: "floor_kept s (add_message c m s)"
  by (simp add: floor_kept_def add_message_def Let_def)

lemma floor_kept_try_spawn_enemy: "floor_kept s (try_spawn_enemy c n choice s)"
proof (induction n arbitrary: s)
  case 0
  then show ?case by simp
next
  case (Suc n)
  obtain pos x' where g: "get_random_walkable_position c (ext s) (game_map s) = (pos, x')"
    by fastforce
  have k: "floor_kept s (s\<lparr>ext := x'\<rparr>)"
    by (simp add: floor_kept_def)
  show ?case
    using floor_kept_trans [OF k Suc.IH [of "s\<lparr>ext := x'\<rparr>"]] g
    by (auto simp: Let_def floor_kept_def split: option.splits)
qed

lemma floor_kept_spawn_normal_enemies: "floor_kept s (spawn_normal_enemies c n av s)"
proof (induction n arbitrary: s)
  case 0
  then show ?case by simp
next
  case (Suc n)
  show ?case
  proof (cases "av = []")
    case True
    then show ?thesis by simp
  next
    case False
    obtain choice x' where g: "random_choice_enemy c (ext s) av = (choice, x')"
      by fastforce
    have k: "floor_kept s (s\<lparr>ext := x'\<rparr>)"
      by (simp add: floor_kept_def)
    from floor_kept_trans [OF floor_kept_trans [OF k floor_kept_try_spawn_enemy] Suc.IH]
    show ?thesis using False g by simp
  qed
qed

lemma floor_kept_spawn_enemies: "spawn_enemies c level s = Inr s' \<Longrightarrow> floor_kept s s'"
  using floor_kept_spawn_normal_enemies [of s c]
  by (auto simp: spawn_enemies_def Let_def floor_kept_def add_message_def
      split: if_splits sum.splits prod.splits)

lemma floor_kept_place_item: "floor_kept s (place_item c n item s)"
proof (induction n arbitrary: s)
  case 0
  then show ?case by simp
next
  case (Suc n)
  obtain pos x' where g: "get_random_walkable_position c (ext s) (game_map s) = (pos, x')"
    by fastforce
  have k: "floor_kept s (s\<lparr>ext := x'\<rparr>)"
    by (simp add: floor_kept_def)
  show ?case
    using floor_kept_trans [OF k Suc.IH [of "s\<lparr>ext := x'\<rparr>"]] g
    by (auto simp: Let_def floor_kept_def split: option.splits)
qed

lemma floor_kept_spawn_chosen:
  "spawn_chosen c n kind names s = Inr s' \<Longrightarrow> floor_kept s s'"
proof (induction n arbitrary: s)
  case 0
  then show ?case by simp
next
  case (Suc n)
  obtain item_type x' where g: "random_choice c (ext s) names = (item_type, x')"
    by fastforce
  from Suc.prems g obtain cfg where cfg: "config_item c kind item_type = Inr cfg"
    and rest: "spawn_chosen c n kind names
                 (place_item c 50 (create_item c item_type cfg) (s\<lparr>ext := x'\<rparr>)) = Inr s'"
    by (auto split: sum.splits)
  have k: "floor_kept s (s\<lparr>ext := x'\<rparr>)"
    by (simp add: floor_kept_def)
  from floor_kept_trans [OF floor_kept_trans [OF k floor_kept_place_item] Suc.IH [OF rest]]
  show ?case .
qed

lemma floor_kept_spawn_gold: "spawn_gold c n s = Inr s' \<Longrightarrow> floor_kept s s'"
proof (induction n arbitrary: s)
  case 0
  then show ?case by simp
next
  case (Suc n)
  from Suc.prems obtain cfg where
    rest: "spawn_gold c n (place_item c 50 (new_Currency c ''gold'' cfg) s) = Inr s'"
    by (auto split: sum.splits)
  from floor_kept_trans [OF floor_kept_place_item Suc.IH [OF rest]] show ?case .
qed

lemma floor_kept_spawn_items: "spawn_items c level s = Inr s' \<Longrightarrow> floor_kept s s'"
  unfolding spawn_items_def
  by (auto split: sum.splits if_splits simp del: spawn_chosen.simps
      dest!: floor_kept_spawn_chosen floor_kept_spawn_gold intro: floor_kept_trans)

lemma generate_level_demo: "generate_level demo 2 descent_start = Inr floor2"
  by code_simp

lemma generate_level_unfold:
  assumes gen: "generate c (logger_info c (ext s) (LogGenerate level)) level = (dd, x1)"
  shows "generate_level c level s =
    (case spawn_enemies c level
       (s\<lparr>ext := x1, game_map := d_map dd, rooms := d_rooms dd,
          width := d_width dd, height := d_height dd, stairs_up := d_stairs_up dd,
          stairs_down := d_stairs_down dd, current_level := level,
          explored := replicate (nat (d_height dd)) (replicate (nat (d_width dd)) False),
          visible := replicate (nat (d_height dd)) (replicate (nat (d_width dd)) False),
          player := move_to c (player s) (fst (d_player_start dd)) (snd (d_player_start dd)),
          enemies := [], items := [], traps := []\<rparr>) of
       Inl e \<Rightarrow> Inl e
     | Inr s5 \<Rightarrow>
         (case spawn_items c level s5 of
            Inl e \<Rightarrow> Inl e
          | Inr s6 \<Rightarrow>
              (case generate_traps c (ext s6) (game_map s6) (width s6) (height s6)
                      level (d_player_start dd) of
                 (new_traps, x2) \<Rightarrow>
                   Inr (add_message c (EnteredLevel level)
                          (update_fov c (s6\<lparr>traps := new_traps, ext := x2\<rparr>))))))"
  unfolding generate_level_def gen
  by (simp add: Let_def)


lemma generate_level_Inr:
  assumes gen: "generate c (logger_info c (ext s) (LogGenerate level)) level = (dd, x1)"
    and ok: "generate_level c level s = Inr s'"
  shows "player s' = move_to c (player s) (fst (d_player_start dd)) (snd (d_player_start dd))
    \<and> game_map s' = d_map dd \<and> rooms s' = d_rooms dd \<and> width s' = d_width dd
    \<and> height s' = d_height dd \<and> stairs_up s' = d_stairs_up dd
    \<and> stairs_down s' = d_stairs_down dd \<and> current_level s' = level
    \<and> visible s' = compute_visible c (d_map dd) (position (player s')) (d_width dd) (d_height dd)
    \<and> explored s' = update_explored c (visible s')
                       (replicate (nat (d_height dd)) (replicate (nat (d_width dd)) False))"
proof -
  define s4 where "s4 = s\<lparr>ext := x1, game_map := d_map dd, rooms := d_rooms dd,
      width := d_width dd, height := d_height dd, stairs_up := d_stairs_up dd,
      stairs_down := d_stairs_down dd, current_level := level,
      explored := replicate (nat (d_height dd)) (replicate (nat (d_width dd)) False),
      visible := replicate (nat (d_height dd)) (replicate (nat (d_width dd)) False),
      player := move_to c (player s) (fst (d_player_start dd)) (snd (d_player_start dd)),
      enemies := [], items := [], traps := []\<rparr>"
  note u = generate_level_unfold [OF gen, folded s4_def]
  obtain s5 where e: "spawn_enemies c level s4 = Inr s5"
    using ok unfolding u by (cases "spawn_enemies c level s4") simp_all
  obtain s6 where i: "spawn_items c level s5 = Inr s6"
    using ok by (cases "spawn_items c level s5") (simp_all add: u e)
  obtain new_traps x2 where
    t: "generate_traps c (ext s6) (game_map s6) (width s6) (height s6) level (d_player_start dd)
              = (new_traps, x2)"
    by fastforce
  have s': "s' = add_message c (EnteredLevel level) (update_fov c (s6\<lparr>traps := new_traps, ext := x2\<rparr>))"
    using ok by (simp add: u e i t)
  have k: "floor_kept s4 s6"
    using floor_kept_trans [OF floor_kept_spawn_enemies [OF e] floor_kept_spawn_items [OF i]] .
  have f4: "player s4 = move_to c (player s) (fst (d_player_start dd)) (snd (d_player_start dd))"
    "game_map s4 = d_map dd" "rooms s4 = d_rooms dd" "width s4 = d_width dd"
    "height s4 = d_height dd" "stairs_up s4 = d_stairs_up dd" "stairs_down s4 = d_stairs_down dd"
    "current_level s4 = level"
    "explored s4 = replicate (nat (d_height dd)) (replicate (nat (d_width dd)) False)"
    by (simp_all add: s4_def)
  have f': "player s' = player s6" "game_map s' = game_map s6" "rooms s' = rooms s6"
    "width s' = width s6" "height s' = height s6" "stairs_up s' = stairs_up s6"
    "stairs_down s' = stairs_down s6" "current_level s' = current_level s6"
    "visible s' = compute_visible c (game_map s6) (position (player s6)) (width s6) (height s6)"
    "explored s' = update_explored c (visible s') (explored s6)"
    by (simp_all add: s' add_message_def update_fov_def Let_def)
  from k f4 f' show ?thesis
    by (simp add: floor_kept_def)
qed

lemma generate_level_forgets_floor:
  "generate_level c level
     (s\<lparr>game_map := m, rooms := r, explored := ex, visible := v, enemies := es,
        items := its, traps := ts, stairs_up := su, stairs_down := sd,
        width := w, height := h, current_level := l\<rparr>) = generate_level c level s"
proof -
  obtain dd x1 where gen: "generate c (logger_info c (ext s) (LogGenerate level)) level = (dd, x1)"
    by fastforce
  let ?t = "s\<lparr>game_map := m, rooms := r, explored := ex, visible := v, enemies := es,
        items := its, traps := ts, stairs_up := su, stairs_down := sd,
        width := w, height := h, current_level := l\<rparr>"
  have gen': "generate c (logger_info c (ext ?t) (LogGenerate level)) level = (dd, x1)"
    using gen by simp
  show ?thesis
    unfolding generate_level_unfold [OF gen] generate_level_unfold [OF gen']
    by simp
qed

lemma remove_slots_nth:
  "remove_slots js xs = map (\<lambda>j. xs ! j) (filter (\<lambda>j. j \<notin> set js) [0..<length xs])"
proof -
  have "zip [0..<length xs] xs = map (\<lambda>j. (j, xs ! j)) [0..<length xs]"
    by (intro nth_equalityI) auto
  then show ?thesis
    by (simp add: remove_slots_def filter_map comp_def)
qed


lemma add_message_player_update:
  "add_message c m (s\<lparr>player := q\<rparr>) = (add_message c m s)\<lparr>player := q\<rparr>"
  by (simp add: add_message_def Let_def)

lemma fold_add_message_player_update:
  "fold (add_message c) logged (s\<lparr>player := q\<rparr>) = (fold (add_message c) logged s)\<lparr>player := q\<rparr>"
  by (induction logged arbitrary: s) (simp_all add: add_message_player_update)

lemma fold_add_message_items [simp]:
  "items (fold (add_message c) logged s) = items s"
  by (induction logged arbitrary: s) simp_all

lemma pickup_loop_rule:
  "items s = pre @ its \<Longrightarrow>
   pickup_rule (add_to_inventory c) pos its (player s) = (p', logged, ground) \<Longrightarrow>
     \<exists>R. pickup_loop c pos [length pre..<length pre + length its] rem s
            = (rem @ R, (fold (add_message c) logged s)\<lparr>player := p'\<rparr>)
        \<and> set R \<subseteq> {length pre..<length pre + length its}
        \<and> map (\<lambda>j. items s ! j)
             (filter (\<lambda>j. j \<notin> set R) [length pre..<length pre + length its]) = ground"
proof (induction its arbitrary: pre rem s p' logged ground)
  case Nil
  then show ?case by auto
next
  case (Cons it its)
  let ?k = "length pre"
  let ?rest = "[Suc ?k..<Suc ?k + length its]"
  have upt: "[?k..<?k + length (it # its)] = ?k # ?rest"
    using upt_conv_Cons [of ?k "?k + length (it # its)"] by simp
  have itk: "items s ! ?k = it"
    using Cons.prems(1) by simp
  have finish: "\<exists>R. pickup_loop c pos [?k..<?k + length (it # its)] rem s
            = (rem @ R, (fold (add_message c) logged s)\<lparr>player := p'\<rparr>)
        \<and> set R \<subseteq> {?k..<?k + length (it # its)}
        \<and> map (\<lambda>j. items s ! j)
             (filter (\<lambda>j. j \<notin> set R) [?k..<?k + length (it # its)]) = ground"
    if step: "pickup_loop c pos (?k # ?rest) rem s = pickup_loop c pos ?rest (rem @ picked) s1"
      and picked: "picked = [?k] \<and> ground = ground' \<or> picked = [] \<and> ground = it # ground'"
      and same: "items s1 = items s"
      and state: "(fold (add_message c) logged1 s1)\<lparr>player := p'\<rparr>
                    = (fold (add_message c) logged s)\<lparr>player := p'\<rparr>"
      and rule1: "pickup_rule (add_to_inventory c) pos its (player s1) = (p', logged1, ground')"
    for picked s1 logged1 ground'
  proof -
    have "items s1 = (pre @ [it]) @ its"
      using same Cons.prems(1) by simp
    from Cons.IH [OF this rule1, of "rem @ picked"] obtain R' where
      run: "pickup_loop c pos ?rest (rem @ picked) s1
              = ((rem @ picked) @ R', (fold (add_message c) logged1 s1)\<lparr>player := p'\<rparr>)"
      and sub: "set R' \<subseteq> {Suc ?k..<Suc ?k + length its}"
      and left: "map (\<lambda>j. items s1 ! j) (filter (\<lambda>j. j \<notin> set R') ?rest) = ground'"
      by auto
    have knot: "?k \<notin> set R'"
      using sub by auto
    have tail: "filter (\<lambda>j. j \<notin> set (picked @ R')) ?rest = filter (\<lambda>j. j \<notin> set R') ?rest"
      using picked by (intro filter_cong) auto
    have "pickup_loop c pos [?k..<?k + length (it # its)] rem s
            = (rem @ (picked @ R'), (fold (add_message c) logged s)\<lparr>player := p'\<rparr>)"
      unfolding upt step run state by simp
    moreover have "set (picked @ R') \<subseteq> {?k..<?k + length (it # its)}"
      using sub picked by auto
    moreover have "map (\<lambda>j. items s ! j)
             (filter (\<lambda>j. j \<notin> set (picked @ R')) [?k..<?k + length (it # its)]) = ground"
      unfolding upt using picked knot left itk tail by (auto simp: same)
    ultimately show ?thesis by blast
  qed
  let ?p = "player s"
  show ?case
  proof (cases "i_position it = pos")
    case False
    obtain q lg gr where r: "pickup_rule (add_to_inventory c) pos its ?p = (q, lg, gr)"
      using prod_cases3 by blast
    with False Cons.prems(2) have eq: "q = p'" "lg = logged" "ground = it # gr"
      by simp_all
    have "pickup_loop c pos (?k # ?rest) rem s = pickup_loop c pos ?rest (rem @ []) s"
      using False
      by (subst pickup_loop.simps)
         (auto simp add: Let_def itk prod_eq_iff simp del: upt_Suc pickup_loop.simps)
    from finish [OF this _ refl refl, of gr] r eq show ?thesis
      by simp
  next
    case here: True
    show ?thesis
    proof (cases "item_category it = ''currency''")
      case True
      let ?s1 = "add_message c (PickedUp (i_name it)) (s\<lparr>player := ?p\<lparr>gold := gold ?p + i_value it\<rparr>\<rparr>)"
      obtain q lg gr where
        r: "pickup_rule (add_to_inventory c) pos its (?p\<lparr>gold := gold ?p + i_value it\<rparr>) = (q, lg, gr)"
        using prod_cases3 by blast
      with here True Cons.prems(2) have eq: "q = p'" "logged = PickedUp (i_name it) # lg" "ground = gr"
        by simp_all
      have step: "pickup_loop c pos (?k # ?rest) rem s = pickup_loop c pos ?rest (rem @ [?k]) ?s1"
        by (subst pickup_loop.simps)
           (simp add: Let_def itk here True del: upt_Suc pickup_loop.simps)
      have state: "(fold (add_message c) lg ?s1)\<lparr>player := p'\<rparr>
                    = (fold (add_message c) logged s)\<lparr>player := p'\<rparr>"
        by (simp add: eq add_message_player_update fold_add_message_player_update)
      from finish [OF step _ _ state, of gr] r eq show ?thesis
        by simp
    next
      case other: False
      show ?thesis
      proof (cases "int (length (inventory ?p)) < max_inventory ?p")
        case True
        obtain success q0 where add: "add_to_inventory c ?p it = (success, q0)"
          by fastforce
        obtain q lg gr where r: "pickup_rule (add_to_inventory c) pos its q0 = (q, lg, gr)"
          using prod_cases3 by blast
        show ?thesis
        proof (cases success)
          case yes: True
          let ?s1 = "add_message c (PickedUp (i_name it)) (s\<lparr>player := q0\<rparr>)"
          from here other True Cons.prems(2) add r yes
          have eq: "q = p'" "logged = PickedUp (i_name it) # lg" "ground = gr"
            by simp_all
          have step: "pickup_loop c pos (?k # ?rest) rem s
                        = pickup_loop c pos ?rest (rem @ [?k]) ?s1"
            by (subst pickup_loop.simps)
               (simp add: Let_def itk here other True add yes del: upt_Suc pickup_loop.simps)
          have state: "(fold (add_message c) lg ?s1)\<lparr>player := p'\<rparr>
                        = (fold (add_message c) logged s)\<lparr>player := p'\<rparr>"
            by (simp add: eq add_message_player_update fold_add_message_player_update)
          from finish [OF step _ _ state, of gr] r eq show ?thesis
            by simp
        next
          case no: False
          let ?s1 = "s\<lparr>player := q0\<rparr>"
          from here other True Cons.prems(2) add r no
          have eq: "q = p'" "logged = lg" "ground = it # gr"
            by simp_all
          have step: "pickup_loop c pos (?k # ?rest) rem s
                        = pickup_loop c pos ?rest (rem @ []) ?s1"
            by (subst pickup_loop.simps)
               (simp add: Let_def itk here other True add no del: upt_Suc pickup_loop.simps)
          have state: "(fold (add_message c) lg ?s1)\<lparr>player := p'\<rparr>
                        = (fold (add_message c) logged s)\<lparr>player := p'\<rparr>"
            by (simp add: eq fold_add_message_player_update)
          from finish [OF step _ _ state, of gr] r eq show ?thesis
            by simp
        qed
      next
        case False
        let ?s1 = "add_message c InventoryFull s"
        obtain q lg gr where r: "pickup_rule (add_to_inventory c) pos its ?p = (q, lg, gr)"
          using prod_cases3 by blast
        with here other False Cons.prems(2)
        have eq: "q = p'" "logged = InventoryFull # lg" "ground = it # gr"
          by simp_all
        have step: "pickup_loop c pos (?k # ?rest) rem s = pickup_loop c pos ?rest (rem @ []) ?s1"
          by (subst pickup_loop.simps)
             (simp add: Let_def itk here other False del: upt_Suc pickup_loop.simps)
        have state: "(fold (add_message c) lg ?s1)\<lparr>player := p'\<rparr>
                      = (fold (add_message c) logged s)\<lparr>player := p'\<rparr>"
          by (simp add: eq)
        from finish [OF step _ _ state, of gr] r eq show ?thesis
          by simp
      qed
    qed
  qed
qed

lemma pickup_rule_accepts:
  "inventory_accepts c \<Longrightarrow>
     pickup_rule (add_to_inventory c) pos its p = pickup_rule accept_item pos its p"
  by (induction its arbitrary: p) (simp_all add: inventory_accepts_def accept_item_def)

section \<open>Status Effect Ticker\<close>


section \<open>Enemy Turn Driver\<close>

text \<open>
  C2. Let the pass of the Enemy Turn Driver have reached slot \<open>i\<close> in state \<open>s1\<close> (the
  enemies before it have been visited and the player was alive after each of them). If
  the enemy in slot \<open>i\<close> is alive and its turn leaves the player dead, the pass ends in the
  state right after that turn and its message: no later enemy acts (the slots after \<open>i\<close>
  are as they were), nothing is purged, and neither the poison tick nor the buff tick runs.
\<close>

theorem C2_player_death_halts_pass:
  assumes reached: "enemy_pass c [0..<i] [] s = (False, rem, s1)"
    and slot: "i < length (enemies s)"
    and alive: "enemy_is_alive c (enemies s1 ! i)"
    and turn: "enemy_take_turn c (ext s1) (enemies s1 ! i) (player s1) (game_map s1) (width s1) (height s1)
                 = (msg, e', p', x')"
    and dead: "\<not> player_is_alive c p'"
  shows "enemy_turn c s
           = add_if_truthy c msg (s1\<lparr>player := p', enemies := (enemies s1)[i := e'], ext := x'\<rparr>)
         \<and> length (enemies (enemy_turn c s)) = length (enemies s)
         \<and> drop (Suc i) (enemies (enemy_turn c s)) = drop (Suc i) (enemies s)"
proof -
  let ?s2 = "add_if_truthy c msg (s1\<lparr>player := p', enemies := (enemies s1)[i := e'], ext := x'\<rparr>)"
  have split: "[0..<length (enemies s)] = [0..<i] @ i # [Suc i..<length (enemies s)]"
    using slot upt_add_eq_append [of 0 i "length (enemies s) - i"]
    by (simp add: upt_conv_Cons)
  have "enemy_pass c (i # [Suc i..<length (enemies s)]) rem s1 = (True, rem, ?s2)"
    using alive turn dead by (simp add: Let_def)
  then have "enemy_pass c [0..<length (enemies s)] [] s = (True, rem, ?s2)"
    using reached by (simp add: split enemy_pass_append)
  then have eq: "enemy_turn c s = ?s2"
    by (simp add: enemy_turn_def)
  from enemy_pass_frame [OF reached]
  have len: "length (enemies s1) = length (enemies s)"
    and same: "\<And>j. i \<le> j \<Longrightarrow> enemies s1 ! j = enemies s ! j"
    by auto
  have "drop (Suc i) ((enemies s1)[i := e']) = drop (Suc i) (enemies s)"
    using len same by (auto intro!: nth_equalityI)
  with eq len show ?thesis by simp
qed

text \<open>
  An instance of C2: three goblins and a player with 5 hit points. The first bite leaves
  2 hit points, the second kills; the third goblin does not act and no tick runs.
\<close>

theorem C2_witness:
  "enemy_pass demo [0..<1] [] duel
     = (False, [], duel\<lparr>player := hero\<lparr>p_attrs := 2\<rparr>, messages := [Text ''bite''],
                         ext := [''enemy_take_turn'']\<rparr>)
   \<and> enemy_turn demo duel
     = duel\<lparr>player := hero\<lparr>p_attrs := - 1\<rparr>, messages := [Text ''bite'', Text ''bite''],
            ext := [''enemy_take_turn'', ''enemy_take_turn'']\<rparr>"
proof -
  let ?s1 = "duel\<lparr>player := hero\<lparr>p_attrs := 2\<rparr>, messages := [Text ''bite''],
                   ext := [''enemy_take_turn'']\<rparr>"
  have h1: "enemy_pass demo [0..<1] [] duel = (False, [], ?s1)"
    by (simp add: duel_def demo_simps)
  have h2: "1 < length (enemies duel)"
    by (simp add: duel_def demo_simps)
  have h3: "enemy_is_alive demo (enemies ?s1 ! 1)"
    by (simp add: duel_def demo_simps)
  have h4: "enemy_take_turn demo (ext ?s1) (enemies ?s1 ! 1) (player ?s1) (game_map ?s1)
              (width ?s1) (height ?s1)
            = (Some ''bite'', goblin 5 1 5, hero\<lparr>p_attrs := - 1\<rparr>,
               [''enemy_take_turn'', ''enemy_take_turn''])"
    by (simp add: duel_def demo_simps)
  have h5: "\<not> player_is_alive demo (hero\<lparr>p_attrs := - 1\<rparr>)"
    by (simp add: demo_simps)
  from C2_player_death_halts_pass [OF h1 h2 h3 h4 h5] h1 show ?thesis
    by (simp add: duel_def demo_simps)
qed

text \<open>
  C7 as stated, that the buff tick does not run whenever the poison tick kills the player,
  fails: \<open>_enemy_turn\<close> looks at the player's life only inside \<open>if poison_message\<close>
  (l.489-492). With a trap system whose tick kills without returning a message, the buff
  tick runs on the dead player.
\<close>

theorem C7_counterexample:
  "player_is_alive demo_silent (player buffed)
   \<and> \<not> player_is_alive demo_silent (player (snd (poison_tick demo_silent buffed)))
   \<and> enemy_turn demo_silent buffed
     = buffed\<lparr>player := hero\<lparr>atk := 4, temp_atk_duration := Some 0, p_attrs := 0\<rparr>,
              messages := [BuffExpired], ext := [''update_player_poison'']\<rparr>"
  by (simp add: buffed_def demo_silent_def demo_simps enemy_turn_def poison_tick_def
      buff_tick_def update_temporary_effects_def join_messages_def)

text \<open>
  C7, amended. In every pass that reaches the poison tick: if the tick returns a
  non-empty message and leaves the player dead, the pass ends with the logging of that
  message, and the buff tick does not run.
\<close>

theorem C7_poison_death_skips_buff_tick:
  assumes pass: "enemy_pass c [0..<length (enemies s)] [] s = (False, rem, s1)"
    and tick: "update_player_poison c (ext s1) (player s1) = (pm, p', x')"
    and reported: "truthy pm"
    and dead: "\<not> player_is_alive c p'"
  shows "enemy_turn c s
           = add_if_truthy c pm (s1\<lparr>enemies := remove_slots rem (enemies s1), player := p', ext := x'\<rparr>)"
  using assms by (simp add: enemy_turn_def poison_tick_def Let_def)

theorem C7_witness:
  "enemy_turn demo_poison buffed
     = buffed\<lparr>player := hero\<lparr>atk := 9, temp_atk_duration := Some 1, p_attrs := 0\<rparr>,
              messages := [Text ''poison''], ext := [''update_player_poison'']\<rparr>"
proof -
  have h1: "enemy_pass demo_poison [0..<length (enemies buffed)] [] buffed = (False, [], buffed)"
    by (simp add: buffed_def demo_simps)
  have h2: "update_player_poison demo_poison (ext buffed) (player buffed)
              = (Some ''poison'', hero\<lparr>atk := 9, temp_atk_duration := Some 1, p_attrs := 0\<rparr>,
                 [''update_player_poison''])"
    by (simp add: buffed_def demo_poison_def demo_simps)
  have h3: "truthy (Some ''poison'')" by simp
  have h4: "\<not> player_is_alive demo_poison (hero\<lparr>atk := 9, temp_atk_duration := Some 1, p_attrs := 0\<rparr>)"
    by (simp add: demo_poison_def demo_simps)
  from C7_poison_death_skips_buff_tick [OF h1 h2 h3 h4] show ?thesis
    by (simp add: buffed_def demo_poison_def demo_simps)
qed

section \<open>Action Resolver\<close>

text \<open>
  C1. A directional move whose target tile holds a living enemy (\<open>_get_enemy_at\<close> finds
  it in slot \<open>i\<close>): the action is one attack on that enemy with its bookkeeping, then one
  pass of the Enemy Turn Driver, then the recomputation of the visibility, and nothing
  else. The attack updates the enemy in place if it survives; if it dies, the player gets
  the experience, the level-up check runs once and the enemy's slot is removed in the same
  action. No pickup and no staircase transition happen: the items, the grid and the floor
  index are unchanged. The player's position is unchanged, given that the combat and trap
  code themselves do not move the player.
\<close>

theorem C1_move_onto_enemy_attacks:
  assumes move: "action \<in> set move_actions"
    and delta: "get_movement_delta c action = (dx, dy)"
    and target: "get_enemy_at c s (fst (position (player s)) + dx) (snd (position (player s)) + dy) = Some i"
    and hit: "attack c (ext s) (player s) (enemies s ! i) = (msg, p', e', x')"
  shows "handle_game_action c action s = Inr (update_fov c (enemy_turn c (player_attack c i s)))
    \<and> i < length (enemies s) \<and> enemy_is_alive c (enemies s ! i)
    \<and> e_position (enemies s ! i) = (fst (position (player s)) + dx, snd (position (player s)) + dy)
    \<and> enemies (player_attack c i s)
        = (if enemy_is_alive c e' then (enemies s)[i := e'] else remove_slot i (enemies s))
    \<and> player (player_attack c i s)
        = (if enemy_is_alive c e' then p'
           else fst (snd (check_level_up c
                  (logger_info c (logger_info c x' (Text msg)) (GainedXp (xp_reward e')))
                  (gain_xp c p' (xp_reward e')))))
    \<and> (keeps_position c \<longrightarrow>
          position (player (update_fov c (enemy_turn c (player_attack c i s)))) = position (player s))
    \<and> items (update_fov c (enemy_turn c (player_attack c i s))) = items s
    \<and> game_map (update_fov c (enemy_turn c (player_attack c i s))) = game_map s
    \<and> current_level (update_fov c (enemy_turn c (player_attack c i s))) = current_level s"
proof -
  have a: "handle_game_action c action s = Inr (update_fov c (enemy_turn c (player_attack c i s)))"
    using move delta target by (simp add: handle_game_action_def handle_move_def Let_def)
  from first_slot_Some [OF target [unfolded get_enemy_at_def]]
  have b: "i < length (enemies s) \<and> enemy_is_alive c (enemies s ! i)
    \<and> e_position (enemies s ! i) = (fst (position (player s)) + dx, snd (position (player s)) + dy)"
    by (auto simp: prod_eq_iff)
  have d: "enemies (player_attack c i s)
        = (if enemy_is_alive c e' then (enemies s)[i := e'] else remove_slot i (enemies s))"
    using hit by (simp add: player_attack_def Let_def remove_slot_update split: prod.splits)
  have e: "player (player_attack c i s)
        = (if enemy_is_alive c e' then p'
           else fst (snd (check_level_up c
                  (logger_info c (logger_info c x' (Text msg)) (GainedXp (xp_reward e')))
                  (gain_xp c p' (xp_reward e')))))"
    using hit by (simp add: player_attack_def Let_def add_message_def split: prod.splits)
  have f: "keeps_position c \<longrightarrow>
          position (player (update_fov c (enemy_turn c (player_attack c i s)))) = position (player s)"
    by (simp add: enemy_turn_position player_attack_position)
  show ?thesis using a b d e f by simp
qed

theorem C1_witness:
  "handle_game_action demo MOVE_RIGHT brawl
     = Inr (brawl\<lparr>player := hero\<lparr>p_attrs := 14\<rparr>,
                  enemies := [goblin 5 1 5, goblin 2 1 9],
                  messages := [Text ''hit'', GainedXp 10, Text ''bite'', Text ''bite''],
                  visible := replicate 3 (replicate 10 True),
                  explored := replicate 3 (replicate 10 True),
                  ext := [''attack'', ''check_level_up'', ''enemy_take_turn'',
                          ''enemy_take_turn'', ''update_player_poison'']\<rparr>)
   \<and> keeps_position demo"
proof -
  have h1: "MOVE_RIGHT \<in> set move_actions"
    by (simp add: move_actions_def)
  have h2: "get_movement_delta demo MOVE_RIGHT = (1, 0)"
    by (simp add: demo_simps)
  have h3: "get_enemy_at demo brawl (fst (position (player brawl)) + 1)
              (snd (position (player brawl)) + 0) = Some 1"
    by (simp add: get_enemy_at_def brawl_def demo_simps)
  have h4: "attack demo (ext brawl) (player brawl) (enemies brawl ! 1)
              = (''hit'', hero, goblin 2 1 (- 1), [''attack''])"
    by (simp add: brawl_def demo_simps)
  have k: "keeps_position demo"
    by (simp add: keeps_position_def demo_def)
  have run: "update_fov demo (enemy_turn demo (player_attack demo 1 brawl))
     = brawl\<lparr>player := hero\<lparr>p_attrs := 14\<rparr>,
                  enemies := [goblin 5 1 5, goblin 2 1 9],
                  messages := [Text ''hit'', GainedXp 10, Text ''bite'', Text ''bite''],
                  visible := replicate 3 (replicate 10 True),
                  explored := replicate 3 (replicate 10 True),
                  ext := [''attack'', ''check_level_up'', ''enemy_take_turn'',
                          ''enemy_take_turn'', ''update_player_poison'']\<rparr>"
    by (simp add: brawl_def demo_simps player_attack_def enemy_turn_def poison_tick_def
        buff_tick_def update_temporary_effects_def join_messages_def update_fov_def
        upt_conv_Cons)
  from C1_move_onto_enemy_attacks [OF h1 h2 h3 h4] run k show ?thesis
    by simp
qed

text \<open>
  C4. A directional move whose target holds no living enemy, is not walkable, and where
  the tile that the handler reads at the target is not a staircase symbol: the engine's
  state, message log and collaborators' state included, is unchanged.
\<close>

theorem C4_blocked_move_is_noop:
  assumes move: "action \<in> set move_actions"
    and delta: "get_movement_delta c action = (dx, dy)"
    and no_enemy: "get_enemy_at c s (fst (position (player s)) + dx) (snd (position (player s)) + dy) = None"
    and blocked: "\<not> is_walkable c (game_map s) (fst (position (player s)) + dx) (snd (position (player s)) + dy)"
    and tile: "tile_at (game_map s) (fst (position (player s)) + dx) (snd (position (player s)) + dy) = Inr tile"
    and no_stairs: "tile \<noteq> CHR ''>''" "tile \<noteq> CHR ''<''"
  shows "handle_game_action c action s = Inr s"
  using assms by (simp add: handle_game_action_def handle_move_def Let_def)

theorem C4_witness:
  "handle_game_action demo MOVE_UP demo_state = Inr demo_state"
proof -
  have h1: "MOVE_UP \<in> set move_actions"
    by (simp add: move_actions_def)
  have h2: "get_movement_delta demo MOVE_UP = (0, - 1)"
    by (simp add: demo_simps)
  have h3: "get_enemy_at demo demo_state (fst (position (player demo_state)) + 0)
              (snd (position (player demo_state)) + - 1) = None"
    by (simp add: get_enemy_at_def demo_simps)
  have h4: "\<not> is_walkable demo (game_map demo_state) (fst (position (player demo_state)) + 0)
              (snd (position (player demo_state)) + - 1)"
    by (simp add: demo_simps)
  have h5: "tile_at (game_map demo_state) (fst (position (player demo_state)) + 0)
              (snd (position (player demo_state)) + - 1) = Inr (CHR ''#'')"
    by (simp add: demo_simps tile_at_def py_index_def)
  have h6: "CHR ''#'' \<noteq> CHR ''>''" "CHR ''#'' \<noteq> CHR ''<''"
    by simp_all
  from C4_blocked_move_is_noop [OF h1 h2 h3 h4 h5 h6] show ?thesis .
qed

text \<open>
  C10. The staircase check of a non-walkable target (l.348) subscripts the grid with the
  target coordinates unguarded. The player on the only tile of a grid of one tile moves
  right: the target \<open>(1, 0)\<close> is outside the grid and the handler ends with IndexError.
  A negative coordinate does not raise: it reads the tile at the opposite edge.
\<close>

theorem C10_move_off_grid_raises:
  "handle_game_action demo MOVE_RIGHT edge = Inl IndexError
   \<and> tile_at [''.>''] (- 1) 0 = Inr (CHR ''>'')"
  by (simp add: edge_def demo_simps handle_game_action_def handle_move_def move_actions_def
      get_enemy_at_def tile_at_def py_index_def)

section \<open>Level Transition Manager\<close>

text \<open>
  C6. Descending on the configured final floor ends the game in victory: the result is
  the state with \<open>running\<close> cleared and the victory screen rendered, and no floor is
  generated (the floor index, the grid and everything else are as before). Descending
  from a lower floor is the regeneration for the next floor index: when it succeeds the
  new floor index is the old one plus one.
\<close>

theorem C6_descend_from_final_floor_is_victory:
  "(current_level s = total_levels c \<longrightarrow>
      go_downstairs c s
        = Inr (s\<lparr>running := False,
                  ext := logger_info c
                           (wait_for_key c (render_game_over c (ext s) (s\<lparr>running := False\<rparr>) True))
                           LogVictory\<rparr>))
   \<and> (current_level s < total_levels c \<longrightarrow>
        go_downstairs c s = generate_level c (current_level s + 1) s
        \<and> (\<forall>s'. go_downstairs c s = Inr s' \<longrightarrow> current_level s' = current_level s + 1))"
proof (intro conjI impI allI)
  assume "current_level s = total_levels c"
  then show "go_downstairs c s
        = Inr (s\<lparr>running := False,
                  ext := logger_info c
                           (wait_for_key c (render_game_over c (ext s) (s\<lparr>running := False\<rparr>) True))
                           LogVictory\<rparr>)"
    by (simp add: go_downstairs_def victory_def Let_def)
next
  assume "current_level s < total_levels c"
  then show "go_downstairs c s = generate_level c (current_level s + 1) s"
    by (simp add: go_downstairs_def)
next
  fix s'
  assume low: "current_level s < total_levels c" and ok: "go_downstairs c s = Inr s'"
  from low ok have g: "generate_level c (current_level s + 1) s = Inr s'"
    by (simp add: go_downstairs_def)
  obtain dd x1 where
    "generate c (logger_info c (ext s) (LogGenerate (current_level s + 1))) (current_level s + 1)
       = (dd, x1)"
    by fastforce
  from generate_level_Inr [OF this g] show "current_level s' = current_level s + 1"
    by (rule conjE) (elim conjE, assumption)
qed

theorem C6_witness:
  "go_downstairs demo (demo_state\<lparr>current_level := 5\<rparr>)
     = Inr (demo_state\<lparr>current_level := 5, running := False,
                        ext := [''render_game_over'', ''wait_for_key'']\<rparr>)
   \<and> go_downstairs demo descent_start = Inr floor2
   \<and> current_level floor2 = current_level descent_start + 1"
proof -
  have h1: "current_level (demo_state\<lparr>current_level := 5\<rparr>) = total_levels demo"
    by (simp add: demo_def)
  have h2: "current_level descent_start < total_levels demo"
    by (simp add: descent_start_def demo_state_def demo_def)
  have one: "current_level descent_start + 1 = 2"
    by (simp add: descent_start_def demo_state_def)
  note a = C6_descend_from_final_floor_is_victory [of "demo_state\<lparr>current_level := 5\<rparr>" demo]
  note b = C6_descend_from_final_floor_is_victory [of descent_start demo]
  from a h1 have v: "go_downstairs demo (demo_state\<lparr>current_level := 5\<rparr>)
     = Inr (demo_state\<lparr>current_level := 5, running := False,
                        ext := [''render_game_over'', ''wait_for_key'']\<rparr>)"
    by (simp add: demo_def demo_state_def)
  from b h2 have g: "go_downstairs demo descent_start = Inr floor2"
    by (simp add: one generate_level_demo)
  from b h2 g have "current_level floor2 = current_level descent_start + 1"
    by blast
  with v g show ?thesis by simp
qed

text \<open>
  C9. A floor transition that succeeds, with \<open>Player.move_to\<close> setting the position: the
  player is the old player at the start position given by the generator, so the stats, the
  inventory and the gold are unchanged. The grid, the rooms, the dimensions, the stairs and
  the floor index are those of the generator, the masks are computed from all-false masks,
  and the result does not depend on the old grid, rooms, masks, enemies, items, traps,
  stairs, dimensions and floor index: they are replaced.
\<close>

theorem C9_floor_transition_keeps_player:
  assumes mv: "\<forall>p x y. move_to c p x y = p\<lparr>position := (x, y)\<rparr>"
    and gen: "generate c (logger_info c (ext s) (LogGenerate level)) level = (dd, x1)"
    and ok: "generate_level c level s = Inr s'"
  shows "player s' = (player s)\<lparr>position := d_player_start dd\<rparr>
    \<and> game_map s' = d_map dd \<and> rooms s' = d_rooms dd \<and> width s' = d_width dd
    \<and> height s' = d_height dd \<and> stairs_up s' = d_stairs_up dd
    \<and> stairs_down s' = d_stairs_down dd \<and> current_level s' = level
    \<and> visible s' = compute_visible c (d_map dd) (d_player_start dd) (d_width dd) (d_height dd)
    \<and> explored s' = update_explored c (visible s')
                       (replicate (nat (d_height dd)) (replicate (nat (d_width dd)) False))
    \<and> generate_level c level
         (s\<lparr>game_map := m, rooms := r, explored := ex, visible := v, enemies := es,
            items := its, traps := ts, stairs_up := su, stairs_down := sd,
            width := w, height := h, current_level := l\<rparr>) = Inr s'"
proof -
  note f = generate_level_Inr [OF gen ok]
  from f mv have p: "player s' = (player s)\<lparr>position := d_player_start dd\<rparr>"
    by simp
  from f have v: "visible s' = compute_visible c (d_map dd) (d_player_start dd) (d_width dd) (d_height dd)"
    by (simp add: p)
  from f p v ok show ?thesis
    by (simp only: generate_level_forgets_floor simp_thms)
qed

theorem C9_witness:
  "player floor2 = (player descent_start)\<lparr>position := (1, 1)\<rparr>
   \<and> gold (player floor2) = 30 \<and> game_map floor2 = demo_map \<and> current_level floor2 = 2
   \<and> generate_level demo 2
        (descent_start\<lparr>game_map := [], rooms := [], explored := [], visible := [],
           enemies := [], items := [], traps := [()], stairs_up := None, stairs_down := None,
           width := 0, height := 0, current_level := 4\<rparr>) = Inr floor2"
proof -
  have h1: "\<forall>p x y. move_to demo p x y = p\<lparr>position := (x, y)\<rparr>"
    by (simp add: demo_def)
  have h2: "generate demo (logger_info demo (ext descent_start) (LogGenerate 2)) 2
              = (\<lparr>d_map = demo_map, d_rooms = [()], d_width = 10, d_height = 3,
                  d_stairs_up = Some (8, 1), d_stairs_down = Some (3, 1),
                  d_player_start = (1, 1)\<rparr>, [''generate''])"
    by (simp add: demo_def descent_start_def demo_state_def)
  note t = C9_floor_transition_keeps_player [where m = "[]" and r = "[]" and ex = "[]"
      and v = "[]" and es = "[]" and its = "[]" and ts = "[()]" and su = None and sd = None
      and w = 0 and h = 0 and l = 4, OF h1 h2 generate_level_demo]
  from t have a: "player floor2 = (player descent_start)\<lparr>position := (1, 1)\<rparr>"
    by simp
  from t have b: "game_map floor2 = demo_map \<and> current_level floor2 = 2"
    by simp
  from t have g: "generate_level demo 2
        (descent_start\<lparr>game_map := [], rooms := [], explored := [], visible := [],
           enemies := [], items := [], traps := [()], stairs_up := None, stairs_down := None,
           width := 0, height := 0, current_level := 4\<rparr>) = Inr floor2"
    by simp
  have "gold (player floor2) = 30"
    by (simp add: a descent_start_def hero_def)
  with a b g show ?thesis
    by simp
qed

section \<open>Purge of dead enemies\<close>




section \<open>Pickup rule\<close>

text \<open>
  C5 as stated, that after every successful move the items co-located with the player are
  evaluated in the same turn, fails: when the trap at the new tile kills the player,
  \<open>_handle_game_action\<close> returns at l.327-329, before the pickup. The player has moved
  onto the tile of the gold; the gold is still on the floor and the player has none.
\<close>

theorem C5_counterexample:
  "is_walkable demo_trap (game_map loot) 2 1
   \<and> items loot ! 0 = thing 2 1 ''currency'' 10 ''gold''
   \<and> handle_game_action demo_trap MOVE_RIGHT loot
     = Inr (loot\<lparr>player := hero\<lparr>position := (2, 1), p_attrs := 0\<rparr>,
                 messages := [Text ''spikes''], running := False,
                 ext := [''check_trap_at'', ''remove_triggered_traps'',
                         ''render_game_over'', ''wait_for_key'']\<rparr>)"
  by (simp add: loot_def demo_trap_def demo_simps handle_game_action_def handle_move_def
      move_actions_def get_enemy_at_def game_over_def)

text \<open>
  C5, amended. A successful move (no living enemy on the target, the target walkable)
  that does not end at the trap-death return: the handler evaluates the items co-located
  with the player in that same action, on the state \<open>s3\<close> reached after the move and the
  trap check, before the staircase check and the enemy turn. The evaluation is the pickup
  rule: the items are taken one after the other, each against the player as the earlier
  ones left it; a currency item adds its value to the gold and leaves the floor; a
  non-currency item is handed to \<open>Player.add_to_inventory\<close> while the inventory has free
  capacity and leaves the floor, with a message, when that reports success (when it reports
  failure the item stays and nothing is logged); otherwise "inventory full" is logged, the
  item stays and the player is unchanged. If \<open>Player.add_to_inventory\<close> accepts every item
  under free capacity, an item handed to it is appended to the inventory.
\<close>

theorem C5_move_then_pickup:
  assumes move: "action \<in> set move_actions"
    and delta: "get_movement_delta c action = (dx, dy)"
    and no_enemy: "get_enemy_at c s (fst (position (player s)) + dx) (snd (position (player s)) + dy) = None"
    and walkable: "is_walkable c (game_map s) (fst (position (player s)) + dx) (snd (position (player s)) + dy)"
    and step: "step_onto c (fst (position (player s)) + dx) (snd (position (player s)) + dy) s = (False, s3)"
    and rule: "pickup_rule (add_to_inventory c) (position (player s3)) (items s3) (player s3)
                 = (p', logged, ground)"
  shows "handle_game_action c action s
           = (case tile_at (game_map s) (fst (position (player s)) + dx) (snd (position (player s)) + dy) of
                Inl e \<Rightarrow> Inl e
              | Inr tile \<Rightarrow>
                  if tile = CHR ''>'' then go_downstairs c (check_pickup_item c s3)
                  else if tile = CHR ''<'' then go_upstairs c (check_pickup_item c s3)
                  else Inr (update_fov c (enemy_turn c (check_pickup_item c s3))))
    \<and> check_pickup_item c s3 = (fold (add_message c) logged s3)\<lparr>player := p', items := ground\<rparr>
    \<and> (inventory_accepts c \<longrightarrow>
          pickup_rule accept_item (position (player s3)) (items s3) (player s3)
            = (p', logged, ground))"
proof -
  let ?x = "fst (position (player s)) + dx" and ?y = "snd (position (player s)) + dy"
  obtain tm p1 x1 where
    trap: "check_trap_at c (ext s) ?x ?y (move_to c (player s) ?x ?y) = (tm, p1, x1)"
    using prod_cases3 by blast
  from step trap have a: "handle_move c action s
           = (case tile_at (game_map s) ?x ?y of
                Inl e \<Rightarrow> Inl e
              | Inr tile \<Rightarrow>
                  if tile = CHR ''>'' then go_downstairs c (check_pickup_item c s3)
                  else if tile = CHR ''<'' then go_upstairs c (check_pickup_item c s3)
                  else Inr (update_fov c (enemy_turn c (check_pickup_item c s3))))"
    using delta no_enemy walkable
    by (auto simp: handle_move_def step_onto_def Let_def split: if_splits sum.splits)
  from pickup_loop_rule [of s3 "[]" "items s3" c "position (player s3)" p' logged ground "[]"] rule
  obtain R where
    run: "pickup_loop c (position (player s3)) [0..<length (items s3)] [] s3
            = (R, (fold (add_message c) logged s3)\<lparr>player := p'\<rparr>)"
    and left: "map (\<lambda>j. items s3 ! j) (filter (\<lambda>j. j \<notin> set R) [0..<length (items s3)]) = ground"
    by auto
  have b: "check_pickup_item c s3 = (fold (add_message c) logged s3)\<lparr>player := p', items := ground\<rparr>"
    by (simp add: check_pickup_item_def run remove_slots_nth left)
  have d: "inventory_accepts c \<longrightarrow>
          pickup_rule accept_item (position (player s3)) (items s3) (player s3)
            = (p', logged, ground)"
    using rule pickup_rule_accepts [of c "position (player s3)" "items s3" "player s3"]
    by simp
  from a b d move show ?thesis
    by (simp add: handle_game_action_def)
qed

theorem C5_witness:
  "handle_game_action demo MOVE_RIGHT loot
     = Inr (loot\<lparr>player := hero\<lparr>position := (2, 1), gold := 15,
                     inventory := [thing 2 1 ''weapon'' 3 ''sword'', thing 2 1 ''armor'' 2 ''shield'']\<rparr>,
                 items := [thing 5 1 ''consumable'' 0 ''health_potion'', thing 2 1 ''weapon'' 4 ''axe''],
                 messages := [PickedUp ''gold'', PickedUp ''sword'', PickedUp ''shield'',
                              InventoryFull, PickedUp ''gold''],
                 visible := replicate 3 (replicate 10 True),
                 explored := replicate 3 (replicate 10 True),
                 ext := [''check_trap_at'', ''update_player_poison'']\<rparr>)
   \<and> inventory_accepts demo"
proof -
  let ?s3 = "loot\<lparr>player := hero\<lparr>position := (2, 1)\<rparr>, ext := [''check_trap_at'']\<rparr>"
  let ?p' = "hero\<lparr>position := (2, 1), gold := 15,
                  inventory := [thing 2 1 ''weapon'' 3 ''sword'', thing 2 1 ''armor'' 2 ''shield'']\<rparr>"
  let ?logged = "[PickedUp ''gold'', PickedUp ''sword'', PickedUp ''shield'',
                  InventoryFull, PickedUp ''gold'']"
  let ?ground = "[thing 5 1 ''consumable'' 0 ''health_potion'', thing 2 1 ''weapon'' 4 ''axe'']"
  have h1: "MOVE_RIGHT \<in> set move_actions"
    by (simp add: move_actions_def)
  have h2: "get_movement_delta demo MOVE_RIGHT = (1, 0)"
    by (simp add: demo_simps)
  have h3: "get_enemy_at demo loot (fst (position (player loot)) + 1)
              (snd (position (player loot)) + 0) = None"
    by (simp add: get_enemy_at_def loot_def demo_simps)
  have h4: "is_walkable demo (game_map loot) (fst (position (player loot)) + 1)
              (snd (position (player loot)) + 0)"
    by (simp add: loot_def demo_simps)
  have h5: "step_onto demo (fst (position (player loot)) + 1)
              (snd (position (player loot)) + 0) loot = (False, ?s3)"
    by (simp add: step_onto_def loot_def demo_simps)
  have h6: "pickup_rule (add_to_inventory demo) (position (player ?s3)) (items ?s3) (player ?s3)
              = (?p', ?logged, ?ground)"
    by (simp add: loot_def thing_def demo_simps)
  have k: "inventory_accepts demo"
    by (simp add: inventory_accepts_def demo_def demo_add_def)
  have tile: "tile_at (game_map loot) (fst (position (player loot)) + 1)
                (snd (position (player loot)) + 0) = Inr (CHR ''.'')"
    by (simp add: loot_def demo_simps tile_at_def py_index_def)
  note t = C5_move_then_pickup [OF h1 h2 h3 h4 h5 h6]
  from t have picked: "check_pickup_item demo ?s3
      = (fold (add_message demo) ?logged ?s3)\<lparr>player := ?p', items := ?ground\<rparr>"
    by blast
  from t tile have moved: "handle_game_action demo MOVE_RIGHT loot
      = Inr (update_fov demo (enemy_turn demo (check_pickup_item demo ?s3)))"
    by simp
  have run: "update_fov demo (enemy_turn demo
                ((fold (add_message demo) ?logged ?s3)\<lparr>player := ?p', items := ?ground\<rparr>))
      = loot\<lparr>player := ?p', items := ?ground, messages := ?logged,
             visible := replicate 3 (replicate 10 True),
             explored := replicate 3 (replicate 10 True),
             ext := [''check_trap_at'', ''update_player_poison'']\<rparr>"
    by (simp add: loot_def demo_simps enemy_turn_def poison_tick_def buff_tick_def
        update_temporary_effects_def join_messages_def update_fov_def)
  show ?thesis
    unfolding moved picked run using k by simp
qed

end
